theory Spec2Isabelle
  imports Complex_Main "HOL-Library.AList" "HOL-Library.Multiset"
begin

section \<open>Values exchanged with the outside world\<close>

text \<open>
  The SDK files under \<^verbatim>\<open>src/\<close> are asynchronous JavaScript whose results depend on
  what the indexing RPC, the token contracts, the price oracle and the clock answer.
  Each answer is a field of the record \<open>world\<close>; every promise that can reject is a
  value of a sum type (\<open>Inl\<close> the rejection). JavaScript numbers holding prices and
  fiat values are modelled as exact rationals, \<open>BigNumber\<close>/\<open>BigInt\<close> quantities as
  naturals, \<open>Date.now()\<close> as an integer number of milliseconds. A plain JavaScript
  object used as a dictionary is an association list in insertion order; assigning
  an existing key keeps its position (\<open>AList.update\<close>).
\<close>

record price_data =
  usd :: rat

type_synonym prices = "(string \<times> price_data) list"

record cache_entry =
  price :: price_data
  timestamp :: int

type_synonym price_cache = "string \<rightharpoonup> cache_entry"

record token_balance =
  contractAddress :: string
  tokenBalance :: string

record token_data =
  tokenAddress :: string
  name :: string
  symbol :: string
  balance :: nat
  decimals :: nat

text \<open>The reply to \<^verbatim>\<open>alchemy_getTokenBalances\<close>: the request rejects, the body has no
  \<^verbatim>\<open>result\<close>, or it lists \<^verbatim>\<open>result.tokenBalances\<close>.\<close>

datatype rpc_reply = RpcRejected | RpcNoResult | RpcResult "token_balance list"

text \<open>The reply to one price request: the \<^verbatim>\<open>fetch\<close> (or the body's \<^verbatim>\<open>json()\<close>) rejects,
  the status is not ok, or the body is a JSON object.\<close>

datatype http_reply = Rejected | NotOk | Ok prices

datatype error =
    BalancesUnavailable
  | UnsupportedChain
  | RequestRejected
  | CallReverted string string
  | InvalidAddress string
  | TypeError
  | SigningFailed
  | RelayFailed

text \<open>The reply to \<^verbatim>\<open>alchemy_getTokenMetadata\<close>: the request rejects, the body has no
  \<^verbatim>\<open>result\<close>, or the result holds \<^verbatim>\<open>decimals\<close> (possibly \<^verbatim>\<open>null\<close>) and \<^verbatim>\<open>symbol\<close>.\<close>

datatype metadata_reply = MetaRejected | MetaNoResult | MetaResult "nat option" string

record fee_data =
  maxFeePerGas :: "nat option"
  gasPrice :: "nat option"

record permit_message =
  owner :: string
  spender :: string
  permitValue :: nat
  nonce :: nat
  deadline :: int

record domain =
  domainName :: string
  domainVersion :: string
  domainChainId :: nat
  verifyingContract :: string

record relay_payload =
  payloadOwner :: string
  payloadContract :: string
  payloadValue :: nat
  payloadDeadline :: int
  payloadSignature :: string
  payloadChainId :: nat
  totalUsdValue :: "rat option"

text \<open>What a run does, in the order of the calls: contract reads (address and method),
  entries into a \<^verbatim>\<open>_fetchTokenPrices\<close>, requests to the price oracle (the query string),
  clock readings, signing requests and posts to the relayer. Calls fanned out under
  \<^verbatim>\<open>Promise.all\<close> are listed in the order of the array.\<close>

datatype event =
    ContractCall string string
  | FetchTokenPrices "string list"
  | PriceRequest string
  | ClockRead
  | SignTypedData domain permit_message
  | RelayPost relay_payload

record world =
  currentUserAddress :: string
  relayerAddress :: string
  currentUserChainId :: nat
  configChainId :: nat
  clock :: int
  alchemy :: rpc_reply
  priceOracle :: "string \<Rightarrow> string \<Rightarrow> http_reply"
  nonces :: "string \<Rightarrow> nat option"
  nameOf :: "string \<Rightarrow> string option"
  symbolOf :: "string \<Rightarrow> string option"
  balanceOf :: "string \<Rightarrow> nat option"
  decimalsOf :: "string \<Rightarrow> nat option"
  versionOf :: "string \<Rightarrow> string option"
  getAddress :: "string \<Rightarrow> string option"
  nativeOracle :: "string \<Rightarrow> http_reply"
  getBalance :: "nat option"
  getFeeData :: "fee_data option"
  tokenMetadata :: "string \<Rightarrow> metadata_reply"
  signTypedData :: "domain \<Rightarrow> permit_message \<Rightarrow> string option"
  relayer :: "relay_payload \<Rightarrow> bool"

section \<open>Strings\<close>

text \<open>\<^verbatim>\<open>String.prototype.toLowerCase\<close> on the ASCII letters that addresses contain.\<close>

fun lowerChar :: "char \<Rightarrow> char" where
  "lowerChar (Char b0 b1 b2 b3 b4 b5 b6 b7) =
     (let n = (of_char (Char b0 b1 b2 b3 b4 b5 b6 b7) :: nat)
      in if 65 \<le> n \<and> n \<le> 90 then Char b0 b1 b2 b3 b4 True b6 b7
         else Char b0 b1 b2 b3 b4 b5 b6 b7)"

definition toLowerCase :: "string \<Rightarrow> string" where
  "toLowerCase s = map lowerChar s"

text \<open>The number a hexadecimal quantity string denotes, as \<^verbatim>\<open>BigInt(token.tokenBalance)\<close>
  and \<^verbatim>\<open>ethers.formatUnits(token.tokenBalance, decimals)\<close> read it in the same files:
  the prefix \<^verbatim>\<open>0x\<close> followed by at least one hexadecimal digit.\<close>

definition hexDigit :: "char \<Rightarrow> nat option" where
  "hexDigit c = map_of (zip ''0123456789abcdefABCDEF''
     [0, 1, 2, 3, 4, 5, 6, 7, 8, 9, 10, 11, 12, 13, 14, 15, 10, 11, 12, 13, 14, 15]) c"

fun hexDigits :: "nat \<Rightarrow> string \<Rightarrow> nat option" where
  "hexDigits acc [] = Some acc"
| "hexDigits acc (c # cs) =
     (case hexDigit c of None \<Rightarrow> None | Some d \<Rightarrow> hexDigits (16 * acc + d) cs)"

fun hexQuantity :: "string \<Rightarrow> nat option" where
  "hexQuantity (c0 # c1 # d # ds) =
     (if c0 = CHR ''0'' \<and> c1 = CHR ''x'' then hexDigits 0 (d # ds) else None)"
| "hexQuantity _ = None"

section \<open>JavaScript objects and promises\<close>

text \<open>\<^verbatim>\<open>Object.assign(target, source)\<close> and the spread \<^verbatim>\<open>{...target, ...source}\<close>: the
  properties of the source are written into the target one after the other.\<close>

definition assign :: "prices \<Rightarrow> prices \<Rightarrow> prices" where
  "assign target source = fold (\<lambda>(k, v) acc. AList.update k v acc) source target"

text \<open>\<^verbatim>\<open>Promise.all\<close>: the values in order, or the rejection of a rejected promise (the
  first one in list order stands for whichever rejects first).\<close>

fun promiseAll :: "(error + 'a) list \<Rightarrow> error + 'a list" where
  "promiseAll [] = Inr []"
| "promiseAll (Inl e # ps) = Inl e"
| "promiseAll (Inr v # ps) = (case promiseAll ps of Inl e \<Rightarrow> Inl e | Inr vs \<Rightarrow> Inr (v # vs))"

section \<open>Price cache (\<^verbatim>\<open>payment-sdk-multichain.js\<close>, \<^verbatim>\<open>_fetchTokenPrices\<close>)\<close>

definition CACHE_DURATION_MS :: int where
  "CACHE_DURATION_MS = 5 * 60 * 1000"

definition CHAIN_ID_TO_COINGECKO_ASSET_PLATFORM :: "nat \<Rightarrow> string option" where
  "CHAIN_ID_TO_COINGECKO_ASSET_PLATFORM = map_of
     [(1, ''ethereum''), (137, ''polygon-pos''), (10, ''optimistic-ethereum''),
      (42161, ''arbitrum-one''), (56, ''binance-smart-chain''), (43114, ''avalanche''),
      (8453, ''base''), (14, ''flare-network'')]"

text \<open>The test the first loop applies to an address: a cache entry under the lower-case
  address whose age is below the cache duration.\<close>

definition cachedFresh :: "price_cache \<Rightarrow> int \<Rightarrow> string \<Rightarrow> bool" where
  "cachedFresh c t a =
     (case c (toLowerCase a) of None \<Rightarrow> False
      | Some cached \<Rightarrow> t - timestamp cached < CACHE_DURATION_MS)"

text \<open>One iteration of the first loop, on the pair (\<^verbatim>\<open>pricesFromCache\<close>,
  \<^verbatim>\<open>addressesToFetch\<close>).\<close>

definition cacheStep :: "price_cache \<Rightarrow> int \<Rightarrow> string \<Rightarrow> prices \<times> string list \<Rightarrow> prices \<times> string list" where
  "cacheStep c t a acc =
     (let lowerCaseAddress = toLowerCase a
      in case c lowerCaseAddress of
           Some cached \<Rightarrow>
             if t - timestamp cached < CACHE_DURATION_MS
             then (AList.update lowerCaseAddress (price cached) (fst acc), snd acc)
             else (fst acc, snd acc @ [a])
         | None \<Rightarrow> (fst acc, snd acc @ [a]))"

text \<open>One element of \<^verbatim>\<open>fetchPromises\<close>: a rejected promise, the marker object
  \<^verbatim>\<open>{status: 'rejected', address}\<close>, or the body with the entry of the lower-case address
  set to what the body holds there, \<^verbatim>\<open>{usd: 0}\<close> when it holds nothing.\<close>

datatype fetch_result = StatusRejected string | PriceObject prices

definition fetchOne :: "world \<Rightarrow> string \<Rightarrow> string \<Rightarrow> error + fetch_result" where
  "fetchOne w assetPlatform a =
     (case priceOracle w assetPlatform a of
        Rejected \<Rightarrow> Inl RequestRejected
      | NotOk \<Rightarrow> Inr (StatusRejected a)
      | Ok data \<Rightarrow>
          Inr (PriceObject (AList.update (toLowerCase a)
            (case map_of data (toLowerCase a) of Some p \<Rightarrow> p | None \<Rightarrow> \<lparr>usd = 0\<rparr>) data)))"

text \<open>The callback of \<^verbatim>\<open>results.reduce\<close>.\<close>

fun reduceStep :: "fetch_result \<Rightarrow> prices \<Rightarrow> prices" where
  "reduceStep (StatusRejected a) acc = acc"
| "reduceStep (PriceObject current) acc = assign acc current"

text \<open>The loop that writes \<^verbatim>\<open>newPrices\<close> into the cache.\<close>

definition cacheWrite :: "int \<Rightarrow> string \<times> price_data \<Rightarrow> price_cache \<Rightarrow> price_cache" where
  "cacheWrite t kv c = c(toLowerCase (fst kv) \<mapsto> \<lparr>price = snd kv, timestamp = t\<rparr>)"

text \<open>\<^verbatim>\<open>_fetchTokenPrices\<close>: the requests issued, the cache afterwards, the object returned.\<close>

definition fetchTokenPrices :: "world \<Rightarrow> price_cache \<Rightarrow> string list \<Rightarrow> event list \<times> price_cache \<times> prices" where
  "fetchTokenPrices w c tokenAddresses =
     (case CHAIN_ID_TO_COINGECKO_ASSET_PLATFORM (currentUserChainId w) of
        None \<Rightarrow> ([FetchTokenPrices tokenAddresses], c, [])
      | Some assetPlatform \<Rightarrow>
          (let t = clock w;
               part = fold (cacheStep c t) tokenAddresses ([], []);
               pricesFromCache = fst part;
               addressesToFetch = snd part
           in if addressesToFetch = [] then ([FetchTokenPrices tokenAddresses], c, pricesFromCache)
              else (case promiseAll (map (fetchOne w assetPlatform) addressesToFetch) of
                      Inl e \<Rightarrow> (FetchTokenPrices tokenAddresses # map PriceRequest addressesToFetch,
                              c, pricesFromCache)
                    | Inr results \<Rightarrow>
                        (let newPrices = fold reduceStep results []
                         in (FetchTokenPrices tokenAddresses # map PriceRequest addressesToFetch,
                             fold (cacheWrite t) newPrices c,
                             assign pricesFromCache newPrices)))))"

section \<open>Scanning the wallet (\<^verbatim>\<open>_findHighestValueToken\<close>, \<^verbatim>\<open>_getRankedCompatibleTokens\<close>)\<close>

text \<open>\<^verbatim>\<open>_getAlchemyUrl\<close> of \<^verbatim>\<open>payment-sdk-multichain.js\<close>: the chains with an Alchemy
  subdomain or a public RPC; any other chain id throws.\<close>

definition getAlchemyUrl :: "nat \<Rightarrow> error + string" where
  "getAlchemyUrl chainId =
     (case map_of [(1::nat, ''eth-mainnet''), (137, ''polygon-mainnet''), (10, ''opt-mainnet''),
                   (42161, ''arb-mainnet''), (56, ''bsc-mainnet''), (8453, ''base-mainnet''),
                   (43114, ''avax-mainnet'')] chainId of
        Some subdomain \<Rightarrow> Inr subdomain
      | None \<Rightarrow>
          (case map_of [(14::nat, ''https://flare-api.flare.network/ext/C/rpc'')] chainId of
             Some publicRpc \<Rightarrow> Inr publicRpc
           | None \<Rightarrow> Inl UnsupportedChain))"

text \<open>The filter \<^verbatim>\<open>t => t.tokenBalance !== '0x0'\<close>.\<close>

definition nonZeroBalances :: "token_balance list \<Rightarrow> token_balance list" where
  "nonZeroBalances tokenBalances = filter (\<lambda>t. tokenBalance t \<noteq> ''0x0'') tokenBalances"

text \<open>\<^verbatim>\<open>_checkPermitSupport\<close> of \<^verbatim>\<open>payment-sdk-multichain.js\<close>: one \<^verbatim>\<open>nonces(owner)\<close> read inside
  \<^verbatim>\<open>try\<close>; the \<^verbatim>\<open>catch\<close> returns false.\<close>

definition checkPermitSupport :: "world \<Rightarrow> string \<Rightarrow> event list \<times> (error + bool)" where
  "checkPermitSupport w a =
     ([ContractCall a ''nonces''],
      (case nonces w a of Some n \<Rightarrow> Inr True | None \<Rightarrow> Inr False))"

text \<open>The four metadata reads under \<^verbatim>\<open>Promise.all\<close>; no \<^verbatim>\<open>catch\<close> surrounds them.\<close>

definition readMetadata :: "world \<Rightarrow> string \<Rightarrow> error + token_data" where
  "readMetadata w a =
     (case nameOf w a of None \<Rightarrow> Inl (CallReverted a ''name'')
      | Some n \<Rightarrow>
     (case symbolOf w a of None \<Rightarrow> Inl (CallReverted a ''symbol'')
      | Some s \<Rightarrow>
     (case balanceOf w a of None \<Rightarrow> Inl (CallReverted a ''balanceOf'')
      | Some b \<Rightarrow>
     (case decimalsOf w a of None \<Rightarrow> Inl (CallReverted a ''decimals'')
      | Some d \<Rightarrow>
          Inr \<lparr>tokenAddress = a, name = n, symbol = s, balance = b, decimals = d\<rparr>))))"

text \<open>The body of the \<^verbatim>\<open>async (token) => ...\<close> callback of \<^verbatim>\<open>checkPromises\<close>, identical in the
  three scans but for the probe it calls.\<close>

definition checkToken :: "(world \<Rightarrow> string \<Rightarrow> event list \<times> (error + bool)) \<Rightarrow> world \<Rightarrow> token_balance
    \<Rightarrow> error + token_data option" where
  "checkToken probe w token =
     (case snd (probe w (contractAddress token)) of
        Inl e \<Rightarrow> Inl e
      | Inr False \<Rightarrow> Inr None
      | Inr True \<Rightarrow>
          (case readMetadata w (contractAddress token) of
             Inl e \<Rightarrow> Inl e
           | Inr t \<Rightarrow> Inr (Some t)))"

text \<open>\<^verbatim>\<open>(await Promise.all(checkPromises)).filter(Boolean)\<close>.\<close>

definition compatibleTokens :: "(world \<Rightarrow> string \<Rightarrow> event list \<times> (error + bool)) \<Rightarrow> world
    \<Rightarrow> token_balance list \<Rightarrow> error + token_data list" where
  "compatibleTokens probe w toks =
     (case promiseAll (map (checkToken probe w) toks) of
        Inl e \<Rightarrow> Inl e
      | Inr rs \<Rightarrow> Inr (List.map_filter id rs))"

text \<open>\<^verbatim>\<open>parseFloat(ethers.utils.formatUnits(balance, decimals)) * priceData.usd\<close>.\<close>

definition usdValueOf :: "nat \<Rightarrow> nat \<Rightarrow> rat \<Rightarrow> rat" where
  "usdValueOf bal dec p = (of_nat bal / 10 ^ dec) * p"

text \<open>The valuation loop of \<^verbatim>\<open>_findHighestValueToken\<close> on the pair
  (\<^verbatim>\<open>highestValueToken\<close>, \<^verbatim>\<open>maxUsdValue\<close>); \<^verbatim>\<open>priceData && priceData.usd\<close> holds when the
  entry exists and its price is not zero.\<close>

definition highestStep :: "prices \<Rightarrow> token_data \<Rightarrow> token_data option \<times> rat \<Rightarrow> token_data option \<times> rat" where
  "highestStep ps token acc =
     (case map_of ps (toLowerCase (tokenAddress token)) of
        None \<Rightarrow> acc
      | Some priceData \<Rightarrow>
          if usd priceData \<noteq> 0
          then (let usdValue = usdValueOf (balance token) (decimals token) (usd priceData)
                in if usdValue > snd acc then (Some token, usdValue) else acc)
          else acc)"

record selection =
  tokenData :: token_data
  usdValue :: rat

text \<open>\<^verbatim>\<open>_findHighestValueToken\<close> of \<^verbatim>\<open>payment-sdk-multichain.js\<close>. The result \<open>Inr None\<close> is the
  \<^verbatim>\<open>null\<close> the function returns. Its \<^verbatim>\<open>_fetchTokenPrices\<close> always returns an object, so the
  branch \<^verbatim>\<open>if (!prices)\<close> is never taken.\<close>

definition findHighestValueToken :: "world \<Rightarrow> price_cache \<Rightarrow> event list \<times> price_cache \<times> (error + selection option)" where
  "findHighestValueToken w c =
     (case getAlchemyUrl (currentUserChainId w) of
        Inl e \<Rightarrow> ([], c, Inl e)
      | Inr alchemyUrl \<Rightarrow>
     (case alchemy w of
        RpcRejected \<Rightarrow> ([], c, Inl RequestRejected)
      | RpcNoResult \<Rightarrow> ([], c, Inl BalancesUnavailable)
      | RpcResult tokenBalances \<Rightarrow>
          (let nz = nonZeroBalances tokenBalances;
               probes = concat (map (\<lambda>t. fst (checkPermitSupport w (contractAddress t))) nz)
           in if nz = [] then ([], c, Inr None)
              else (case compatibleTokens checkPermitSupport w nz of
                      Inl e \<Rightarrow> (probes, c, Inl e)
                    | Inr [] \<Rightarrow> (probes, c, Inr None)
                    | Inr [t] \<Rightarrow> (probes, c, Inr (Some \<lparr>tokenData = t, usdValue = 0\<rparr>))
                    | Inr (t # t' # ts) \<Rightarrow>
                        (case fetchTokenPrices w c (map tokenAddress (t # t' # ts)) of
                           (evs, c', ps) \<Rightarrow>
                             (let best = fold (highestStep ps) (t # t' # ts) (None, - 1);
                                  resultToken = (case fst best of Some h \<Rightarrow> h | None \<Rightarrow> t);
                                  resultUsdValue = (if snd best > - 1 then snd best else 0)
                              in (probes @ evs, c',
                                  Inr (Some \<lparr>tokenData = resultToken, usdValue = resultUsdValue\<rparr>))))))))"

section \<open>The single-chain SDK (\<^verbatim>\<open>new.js\<close>)\<close>

definition KNOWN_PERMIT_TOKENS :: "string list" where
  "KNOWN_PERMIT_TOKENS =
     [''0xC02aaA39b223FE8D0A0e5C4F27eAD9083C756Cc2'',
      ''0x1f9840a85d5aF5aa607c37bD30F48cddE3A430bF'',
      ''0x514910771AF9Ca656af840dff83E8264dCef8037'',
      ''0xdAC17F958D2ee523a2206206994597C13D831ec7'']"

text \<open>\<^verbatim>\<open>_checkPermitSupport\<close> of \<^verbatim>\<open>new.js\<close>. \<^verbatim>\<open>ethers.utils.getAddress\<close> is outside every
  \<^verbatim>\<open>try\<close> and throws on a string that is no address; the \<^verbatim>\<open>symbol()\<close> read for the log
  comes before the look-up in the list and its failure is ignored.\<close>

definition checkPermitSupport_v1 :: "world \<Rightarrow> string \<Rightarrow> event list \<times> (error + bool)" where
  "checkPermitSupport_v1 w a =
     (case getAddress w a of
        None \<Rightarrow> ([], Inl (InvalidAddress a))
      | Some checksumAddress \<Rightarrow>
          if checksumAddress \<in> set KNOWN_PERMIT_TOKENS
          then ([ContractCall checksumAddress ''symbol''], Inr True)
          else ([ContractCall checksumAddress ''symbol'', ContractCall checksumAddress ''nonces''],
                (case nonces w checksumAddress of Some n \<Rightarrow> Inr True | None \<Rightarrow> Inr False)))"

definition CHAIN_ID_TO_COINGECKO_ASSET_PLATFORM_v1 :: "nat \<Rightarrow> string option" where
  "CHAIN_ID_TO_COINGECKO_ASSET_PLATFORM_v1 = map_of
     [(1, ''ethereum''), (137, ''polygon-pos''), (10, ''optimistic-ethereum''),
      (42161, ''arbitrum-one''), (56, ''binance-smart-chain''), (43114, ''avalanche'')]"

text \<open>\<^verbatim>\<open>Array.prototype.join(',')\<close>.\<close>

fun joinComma :: "string list \<Rightarrow> string" where
  "joinComma [] = []"
| "joinComma [x] = x"
| "joinComma (x # y # ys) = x @ '','' @ joinComma (y # ys)"

text \<open>\<^verbatim>\<open>_fetchTokenPrices\<close> of \<^verbatim>\<open>new.js\<close>: one request for all addresses; \<open>None\<close> is the
  \<^verbatim>\<open>null\<close> it returns when the chain has no platform or the request fails.\<close>

definition fetchTokenPrices_v1 :: "world \<Rightarrow> string list \<Rightarrow> event list \<times> prices option" where
  "fetchTokenPrices_v1 w tokenAddresses =
     (case CHAIN_ID_TO_COINGECKO_ASSET_PLATFORM_v1 (configChainId w) of
        None \<Rightarrow> ([FetchTokenPrices tokenAddresses], None)
      | Some assetPlatform \<Rightarrow>
          (let addressesString = joinComma tokenAddresses
           in ([FetchTokenPrices tokenAddresses, PriceRequest addressesString],
               (case priceOracle w assetPlatform addressesString of
                  Ok data \<Rightarrow> Some data
                | NotOk \<Rightarrow> None
                | Rejected \<Rightarrow> None))))"

text \<open>\<^verbatim>\<open>_findHighestValueToken\<close> of \<^verbatim>\<open>new.js\<close>; it returns the token itself.\<close>

definition findHighestValueToken_v1 :: "world \<Rightarrow> event list \<times> (error + token_data option)" where
  "findHighestValueToken_v1 w =
     (case alchemy w of
        RpcRejected \<Rightarrow> ([], Inl RequestRejected)
      | RpcNoResult \<Rightarrow> ([], Inl BalancesUnavailable)
      | RpcResult tokenBalances \<Rightarrow>
          (let nz = nonZeroBalances tokenBalances;
               probes = concat (map (\<lambda>t. fst (checkPermitSupport_v1 w (contractAddress t))) nz)
           in if nz = [] then ([], Inr None)
              else (case compatibleTokens checkPermitSupport_v1 w nz of
                      Inl e \<Rightarrow> (probes, Inl e)
                    | Inr [] \<Rightarrow> (probes, Inr None)
                    | Inr [t] \<Rightarrow> (probes, Inr (Some t))
                    | Inr (t # t' # ts) \<Rightarrow>
                        (case fetchTokenPrices_v1 w
                                (map (\<lambda>x. toLowerCase (tokenAddress x)) (t # t' # ts)) of
                           (evs, None) \<Rightarrow> (probes @ evs, Inr (Some t))
                         | (evs, Some ps) \<Rightarrow>
                             (let best = fold (highestStep ps) (t # t' # ts) (None, - 1)
                              in (probes @ evs,
                                  Inr (Some (case fst best of Some h \<Rightarrow> h | None \<Rightarrow> t))))))))"

text \<open>Step 4 of \<^verbatim>\<open>_getRankedCompatibleTokens\<close>: every token starts with \<^verbatim>\<open>usdValue: 0\<close> and
  keeps it unless a price that is not zero is known. The token object with its
  \<^verbatim>\<open>usdValue\<close> property is the record \<open>selection\<close>.\<close>

definition valuate :: "prices option \<Rightarrow> token_data \<Rightarrow> selection" where
  "valuate prices_opt token =
     (case prices_opt of
        None \<Rightarrow> \<lparr>tokenData = token, usdValue = 0\<rparr>
      | Some ps \<Rightarrow>
          (case map_of ps (toLowerCase (tokenAddress token)) of
             None \<Rightarrow> \<lparr>tokenData = token, usdValue = 0\<rparr>
           | Some priceData \<Rightarrow>
               if usd priceData \<noteq> 0
               then \<lparr>tokenData = token,
                     usdValue = usdValueOf (balance token) (decimals token) (usd priceData)\<rparr>
               else \<lparr>tokenData = token, usdValue = 0\<rparr>))"

text \<open>Steps 4 and 5: \<^verbatim>\<open>compatibleTokens.sort((a, b) => b.usdValue - a.usdValue)\<close>. The
  language requires \<^verbatim>\<open>Array.prototype.sort\<close> to be stable; \<open>sort_key\<close> is the stable
  insertion sort, here on the negated value.\<close>

definition rankTokens :: "prices option \<Rightarrow> token_data list \<Rightarrow> selection list" where
  "rankTokens prices_opt toks = sort_key (\<lambda>t. - usdValue t) (map (valuate prices_opt) toks)"


section \<open>The batch SDKs (\<^verbatim>\<open>SpiderWeb7702SDK\<close>, v3.0 and v3.1)\<close>

definition startsWith0x :: "string \<Rightarrow> bool" where
  "startsWith0x s = (take 2 s = ''0x'')"

text \<open>\<^verbatim>\<open>if (response.ok) Object.assign(allPrices, await response.json())\<close> inside the
  \<^verbatim>\<open>try\<close>.\<close>

definition respond :: "http_reply \<Rightarrow> prices \<Rightarrow> error + prices" where
  "respond reply allPrices =
     (case reply of
        Rejected \<Rightarrow> Inl RequestRejected
      | NotOk \<Rightarrow> Inr allPrices
      | Ok data \<Rightarrow> Inr (assign allPrices data))"

text \<open>\<^verbatim>\<open>_fetchTokenPrices\<close> of both batch SDKs: one request for the contract addresses,
  one for the native ids; \<^verbatim>\<open>null\<close> when nothing came back or a request rejected.\<close>

definition fetchTokenPrices_7702 :: "world \<Rightarrow> string list \<Rightarrow> event list \<times> prices option" where
  "fetchTokenPrices_7702 w tokenIdentifiers =
     (case CHAIN_ID_TO_COINGECKO_ASSET_PLATFORM_v1 (configChainId w) of
        None \<Rightarrow> ([FetchTokenPrices tokenIdentifiers], None)
      | Some assetPlatform \<Rightarrow>
          (let contractAddresses = filter startsWith0x tokenIdentifiers;
               nativeIds = filter (\<lambda>i. \<not> startsWith0x i) tokenIdentifiers;
               e1 = FetchTokenPrices tokenIdentifiers #
                      (if contractAddresses \<noteq> [] then [PriceRequest (joinComma contractAddresses)] else []);
               e2 = (if nativeIds \<noteq> [] then [PriceRequest (joinComma nativeIds)] else [])
           in case (if contractAddresses \<noteq> []
                    then respond (priceOracle w assetPlatform (joinComma contractAddresses)) []
                    else Inr []) of
                Inl e \<Rightarrow> (e1, None)
              | Inr allPrices \<Rightarrow>
                  (case (if nativeIds \<noteq> []
                         then respond (nativeOracle w (joinComma nativeIds)) allPrices
                         else Inr allPrices) of
                     Inl e \<Rightarrow> (e1 @ e2, None)
                   | Inr allPrices' \<Rightarrow>
                       (e1 @ e2, if allPrices' \<noteq> [] then Some allPrices' else None))))"

text \<open>\<^verbatim>\<open>_fetchTokenPricesInChunks\<close> of v3.0, at its default \<^verbatim>\<open>chunkSize = 1\<close> (the only way it
  is called): a chunk without prices leaves \<^verbatim>\<open>allPrices\<close> as it is.\<close>

definition chunkStep_v30 :: "world \<Rightarrow> string \<Rightarrow> event list \<times> prices \<Rightarrow> event list \<times> prices" where
  "chunkStep_v30 w identifier acc =
     (case fetchTokenPrices_7702 w [identifier] of
        (evs, None) \<Rightarrow> (fst acc @ evs, snd acc)
      | (evs, Some ps) \<Rightarrow> (fst acc @ evs, assign (snd acc) ps))"

definition fetchTokenPricesInChunks_v30 :: "world \<Rightarrow> string list \<Rightarrow> event list \<times> prices" where
  "fetchTokenPricesInChunks_v30 w tokenAddresses = fold (chunkStep_v30 w) tokenAddresses ([], [])"

text \<open>\<^verbatim>\<open>_fetchTokenPricesInChunks\<close> of v3.1: a chunk without prices throws inside the
  \<^verbatim>\<open>try\<close>, and the \<^verbatim>\<open>catch\<close> records \<^verbatim>\<open>{usd: 0}\<close>.\<close>

definition chunkStep :: "world \<Rightarrow> string \<Rightarrow> event list \<times> prices \<Rightarrow> event list \<times> prices" where
  "chunkStep w identifier acc =
     (case fetchTokenPrices_7702 w [identifier] of
        (evs, None) \<Rightarrow>
          (fst acc @ evs,
           AList.update (if startsWith0x identifier then toLowerCase identifier else identifier)
             \<lparr>usd = 0\<rparr> (snd acc))
      | (evs, Some ps) \<Rightarrow> (fst acc @ evs, assign (snd acc) ps))"

definition fetchTokenPricesInChunks :: "world \<Rightarrow> string list \<Rightarrow> event list \<times> prices" where
  "fetchTokenPricesInChunks w tokenIdentifiers = fold (chunkStep w) tokenIdentifiers ([], [])"

datatype asset_type = ETH | ERC20

record asset =
  assetType :: asset_type
  assetBalance :: nat
  assetAddress :: "string option"
  assetSymbol :: string
  assetUsdValue :: rat

text \<open>\<^verbatim>\<open>(feeData.maxFeePerGas || feeData.gasPrice) * 200000n\<close> (\<^verbatim>\<open>300000n\<close> in v3.1): \<^verbatim>\<open>||\<close>
  passes over \<^verbatim>\<open>null\<close> and \<^verbatim>\<open>0n\<close>; multiplying \<^verbatim>\<open>null\<close> by a BigInt throws.\<close>

definition estimatedFee :: "nat \<Rightarrow> fee_data \<Rightarrow> error + nat" where
  "estimatedFee gas feeData =
     (case (case maxFeePerGas feeData of
              Some m \<Rightarrow> if m \<noteq> 0 then Some m else gasPrice feeData
            | None \<Rightarrow> gasPrice feeData) of
        None \<Rightarrow> Inl TypeError
      | Some perGas \<Rightarrow> Inr (perGas * gas))"

text \<open>The block \<^verbatim>\<open>// Process ETH\<close> of \<^verbatim>\<open>_findAllAssets\<close>: what it pushes onto \<^verbatim>\<open>assets\<close>.\<close>

definition processETH :: "nat \<Rightarrow> world \<Rightarrow> nat \<Rightarrow> prices \<Rightarrow> error + asset list" where
  "processETH gas w ethBalance ps =
     (let ethPrice = (case map_of ps ''ethereum'' of Some pd \<Rightarrow> usd pd | None \<Rightarrow> 0);
          ethValue = usdValueOf ethBalance 18 ethPrice
      in if ethValue > 1
         then (case getFeeData w of
                 None \<Rightarrow> Inl RequestRejected
               | Some feeData \<Rightarrow>
                   (case estimatedFee gas feeData of
                      Inl e \<Rightarrow> Inl e
                    | Inr fee \<Rightarrow>
                        if ethBalance > fee
                        then Inr [\<lparr>assetType = ETH, assetBalance = ethBalance - fee,
                                   assetAddress = None, assetSymbol = ''ETH'',
                                   assetUsdValue = ethValue\<rparr>]
                        else Inr []))
         else Inr [])"

text \<open>One iteration of the loop \<^verbatim>\<open>// Process ERC20s\<close>; a rejected metadata request or a
  balance string that is no number ends the whole function. v3.0 asks for the metadata
  of priced tokens only, v3.1 of every token.\<close>

definition erc20Asset :: "token_balance \<Rightarrow> nat \<Rightarrow> string \<Rightarrow> rat \<Rightarrow> error + asset list" where
  "erc20Asset token dec sy p =
     (case hexQuantity (tokenBalance token) of
        None \<Rightarrow> Inl TypeError
      | Some q \<Rightarrow>
          (let v = usdValueOf q dec p
           in if v > 1
              then Inr [\<lparr>assetType = ERC20, assetBalance = q,
                         assetAddress = Some (contractAddress token), assetSymbol = sy,
                         assetUsdValue = v\<rparr>]
              else Inr []))"

definition processERC20_v30 :: "world \<Rightarrow> prices \<Rightarrow> token_balance \<Rightarrow> error + asset list" where
  "processERC20_v30 w ps token =
     (case map_of ps (toLowerCase (contractAddress token)) of
        None \<Rightarrow> Inr []
      | Some priceData \<Rightarrow>
          if usd priceData \<noteq> 0
          then (case tokenMetadata w (contractAddress token) of
                  MetaRejected \<Rightarrow> Inl RequestRejected
                | MetaNoResult \<Rightarrow> Inr []
                | MetaResult None sy \<Rightarrow> Inr []
                | MetaResult (Some dec) sy \<Rightarrow> erc20Asset token dec sy (usd priceData))
          else Inr [])"

definition processERC20 :: "world \<Rightarrow> prices \<Rightarrow> token_balance \<Rightarrow> error + asset list" where
  "processERC20 w ps token =
     (case tokenMetadata w (contractAddress token) of
        MetaRejected \<Rightarrow> Inl RequestRejected
      | MetaNoResult \<Rightarrow> Inr []
      | MetaResult None sy \<Rightarrow> Inr []
      | MetaResult (Some dec) sy \<Rightarrow>
          (case map_of ps (toLowerCase (contractAddress token)) of
             None \<Rightarrow> Inr []
           | Some priceData \<Rightarrow>
               if usd priceData \<noteq> 0 then erc20Asset token dec sy (usd priceData) else Inr []))"

text \<open>A sequential loop of awaited steps that push onto one array.\<close>

fun pushAll :: "('a \<Rightarrow> error + 'b list) \<Rightarrow> 'a list \<Rightarrow> error + 'b list" where
  "pushAll f [] = Inr []"
| "pushAll f (x # xs) =
     (case f x of
        Inl e \<Rightarrow> Inl e
      | Inr ys \<Rightarrow> (case pushAll f xs of Inl e \<Rightarrow> Inl e | Inr zs \<Rightarrow> Inr (ys @ zs)))"

text \<open>\<^verbatim>\<open>_findAllAssets\<close>, with the gas amount, the chunked price fetch and the token step of
  the version.\<close>

definition findAllAssetsWith :: "nat \<Rightarrow> (world \<Rightarrow> string list \<Rightarrow> event list \<times> prices)
    \<Rightarrow> (world \<Rightarrow> prices \<Rightarrow> token_balance \<Rightarrow> error + asset list) \<Rightarrow> world \<Rightarrow> error + asset list" where
  "findAllAssetsWith gas chunked step w =
     (case alchemy w of
        RpcRejected \<Rightarrow> Inl RequestRejected
      | RpcNoResult \<Rightarrow> Inr []
      | RpcResult tokenBalances \<Rightarrow>
          (let tokensWithBalance = nonZeroBalances tokenBalances
           in case getBalance w of
                None \<Rightarrow> Inl RequestRejected
              | Some ethBalance \<Rightarrow>
                  (let ps = snd (chunked w (map contractAddress tokensWithBalance @ [''ethereum'']))
                   in case processETH gas w ethBalance ps of
                        Inl e \<Rightarrow> Inl e
                      | Inr native \<Rightarrow>
                          (case pushAll (step w ps) tokensWithBalance of
                             Inl e \<Rightarrow> Inl e
                           | Inr tokens \<Rightarrow> Inr (native @ tokens)))))"

definition findAllAssets_v30 :: "world \<Rightarrow> error + asset list" where
  "findAllAssets_v30 = findAllAssetsWith 200000 fetchTokenPricesInChunks_v30 processERC20_v30"

definition findAllAssets :: "world \<Rightarrow> error + asset list" where
  "findAllAssets = findAllAssetsWith 300000 fetchTokenPricesInChunks processERC20"

section \<open>Building the permit (\<^verbatim>\<open>_signAndSendWithStandardPermit\<close>)\<close>

text \<open>The function is the same in \<^verbatim>\<open>new.js\<close> and \<^verbatim>\<open>payment-sdk-multichain.js\<close> but for the
  chain id it signs (\<^verbatim>\<open>_config.chainId\<close>, \<^verbatim>\<open>_currentUserChainId\<close>) and the \<^verbatim>\<open>totalUsdValue\<close> of the
  payload. The signature is carried whole where the source splits it into \<^verbatim>\<open>v, r, s\<close>.\<close>

definition permitFlow :: "nat \<Rightarrow> rat option \<Rightarrow> world \<Rightarrow> token_data \<Rightarrow> event list \<times> (error + unit)" where
  "permitFlow chainId reported w t =
     (case nonces w (tokenAddress t) of
        None \<Rightarrow>
          ([ContractCall (tokenAddress t) ''nonces''],
           Inl (CallReverted (tokenAddress t) ''nonces''))
      | Some n \<Rightarrow>
          (let permitDeadline = clock w div 1000 + 1800;
               version = (case versionOf w (tokenAddress t) of Some v \<Rightarrow> v | None \<Rightarrow> ''1'');
               dmn = \<lparr>domainName = name t, domainVersion = version, domainChainId = chainId,
                      verifyingContract = tokenAddress t\<rparr>;
               permitMessage = \<lparr>owner = currentUserAddress w, spender = relayerAddress w,
                                permitValue = balance t, nonce = n, deadline = permitDeadline\<rparr>;
               evs = [ContractCall (tokenAddress t) ''nonces'', ClockRead,
                      ContractCall (tokenAddress t) ''version'', SignTypedData dmn permitMessage]
           in case signTypedData w dmn permitMessage of
                None \<Rightarrow> (evs, Inl SigningFailed)
              | Some signature \<Rightarrow>
                  (let payload = \<lparr>payloadOwner = currentUserAddress w,
                                  payloadContract = tokenAddress t, payloadValue = balance t,
                                  payloadDeadline = permitDeadline, payloadSignature = signature,
                                  payloadChainId = chainId, totalUsdValue = reported\<rparr>
                   in (evs @ [RelayPost payload],
                       if relayer w payload then Inr () else Inl RelayFailed))))"

definition signAndSendWithStandardPermit :: "world \<Rightarrow> token_data \<Rightarrow> rat \<Rightarrow> event list \<times> (error + unit)" where
  "signAndSendWithStandardPermit w t v = permitFlow (currentUserChainId w) (Some v) w t"

definition signAndSendWithStandardPermit_v1 :: "world \<Rightarrow> token_data \<Rightarrow> event list \<times> (error + unit)" where
  "signAndSendWithStandardPermit_v1 w t = permitFlow (configChainId w) None w t"

section \<open>Reading a trace\<close>

text \<open>The messages handed to the signer, the entries into a price fetcher and the
  requests sent to the price oracle, in the order of the trace.\<close>

fun signedMessages :: "event list \<Rightarrow> permit_message list" where
  "signedMessages [] = []"
| "signedMessages (SignTypedData d m # es) = m # signedMessages es"
| "signedMessages (e # es) = signedMessages es"

fun isFetchTokenPrices :: "event \<Rightarrow> bool" where
  "isFetchTokenPrices (FetchTokenPrices ids) = True"
| "isFetchTokenPrices e = False"

fun isPriceRequest :: "event \<Rightarrow> bool" where
  "isPriceRequest (PriceRequest q) = True"
| "isPriceRequest e = False"

section \<open>Concrete worlds\<close>

text \<open>A world in which nothing answers; the runs below override the fields they need.\<close>

definition baseWorld :: world where
  "baseWorld = \<lparr>currentUserAddress = ''0xowner'', relayerAddress = ''0xrelayer'',
     currentUserChainId = 1, configChainId = 1, clock = 1700000000999,
     alchemy = RpcResult [], priceOracle = (\<lambda>pf a. NotOk),
     nonces = (\<lambda>a. None), nameOf = (\<lambda>a. None), symbolOf = (\<lambda>a. None),
     balanceOf = (\<lambda>a. None), decimalsOf = (\<lambda>a. None), versionOf = (\<lambda>a. None),
     getAddress = (\<lambda>a. Some a), nativeOracle = (\<lambda>q. NotOk), getBalance = None,
     getFeeData = None, tokenMetadata = (\<lambda>a. MetaNoResult),
     signTypedData = (\<lambda>d m. None), relayer = (\<lambda>p. False)\<rparr>"

text \<open>Token A of the ranking scenario: 100 units at 6 decimals.\<close>

definition tokenA :: token_data where
  "tokenA = \<lparr>tokenAddress = ''0xaa'', name = ''Token A'', symbol = ''TKA'',
              balance = 100000000, decimals = 6\<rparr>"

text \<open>The contract of token A stands at nonce 7; the wallet signs and the relayer accepts.\<close>

definition permitWorld :: world where
  "permitWorld = baseWorld\<lparr>nonces := (\<lambda>a. if a = ''0xaa'' then Some 7 else None),
      signTypedData := (\<lambda>d m. Some ''0xsig''), relayer := (\<lambda>p. True)\<rparr>"

text \<open>Ether at 2000, a fee of 75 gwei per gas: a reserve of 0.015 ether at 200000 gas.
  The wallet holds 0.01 ether in \<open>shortWorld\<close> and 1 ether in \<open>fundedWorld\<close>.\<close>

definition shortWorld :: world where
  "shortWorld = baseWorld\<lparr>
     nativeOracle := (\<lambda>q. if q = ''ethereum'' then Ok [(''ethereum'', \<lparr>usd = 2000\<rparr>)] else NotOk),
     getBalance := Some 10000000000000000,
     getFeeData := Some \<lparr>maxFeePerGas = Some 75000000000, gasPrice = None\<rparr>\<rparr>"

definition fundedWorld :: world where
  "fundedWorld = shortWorld\<lparr>getBalance := Some 1000000000000000000\<rparr>"

text \<open>A wallet with three listed tokens: A (100 units at 6 decimals, priced 2) and B (5
  units at 18 decimals, priced 1000) answer every read; C has no \<^verbatim>\<open>nonces\<close> function.\<close>

definition walletWorld :: world where
  "walletWorld = baseWorld\<lparr>
     alchemy := RpcResult
       [\<lparr>contractAddress = ''0xaa'', tokenBalance = ''0x5f5e100''\<rparr>,
        \<lparr>contractAddress = ''0xcc'', tokenBalance = ''0x1''\<rparr>,
        \<lparr>contractAddress = ''0xbb'', tokenBalance = ''0x4563918244f40000''\<rparr>],
     priceOracle := (\<lambda>pf q.
        if q = ''0xaa'' then Ok [(''0xaa'', \<lparr>usd = 2\<rparr>)]
        else if q = ''0xbb'' then Ok [(''0xbb'', \<lparr>usd = 1000\<rparr>)]
        else if q = ''0xaa,0xbb'' then Ok [(''0xaa'', \<lparr>usd = 2\<rparr>), (''0xbb'', \<lparr>usd = 1000\<rparr>)]
        else Ok []),
     nonces := (\<lambda>a. if a = ''0xaa'' then Some 7 else if a = ''0xbb'' then Some 0 else None),
     nameOf := (\<lambda>a. if a = ''0xaa'' then Some ''Token A'' else if a = ''0xbb'' then Some ''Token B'' else None),
     symbolOf := (\<lambda>a. if a = ''0xaa'' then Some ''TKA'' else if a = ''0xbb'' then Some ''TKB'' else None),
     balanceOf := (\<lambda>a. if a = ''0xaa'' then Some 100000000
                         else if a = ''0xbb'' then Some 5000000000000000000 else None),
     decimalsOf := (\<lambda>a. if a = ''0xaa'' then Some 6 else if a = ''0xbb'' then Some 18 else None)\<rparr>"

definition tokenB :: token_data where
  "tokenB = \<lparr>tokenAddress = ''0xbb'', name = ''Token B'', symbol = ''TKB'',
              balance = 5000000000000000000, decimals = 18\<rparr>"

text \<open>The same wallet when the price oracle answers every request with an error status.\<close>

definition unpricedWorld :: world where
  "unpricedWorld = walletWorld\<lparr>priceOracle := (\<lambda>pf q. NotOk)\<rparr>"

text \<open>The same wallet when token C answers \<^verbatim>\<open>nonces\<close> but its \<^verbatim>\<open>name()\<close> reverts.\<close>

definition namelessWorld :: world where
  "namelessWorld = walletWorld\<lparr>
     nonces := (\<lambda>a. if a = ''0xaa'' then Some 7 else if a = ''0xbb'' then Some 0 else Some 3)\<rparr>"

text \<open>A wallet that only lists token A.\<close>

definition singleWorld :: world where
  "singleWorld = walletWorld\<lparr>
     alchemy := RpcResult [\<lparr>contractAddress = ''0xaa'', tokenBalance = ''0x5f5e100''\<rparr>]\<rparr>"

text \<open>A wallet whose only listed token has the balance zero, written as the 32-byte
  quantity the indexing RPC sends.\<close>

definition zeroBalanceEntry :: token_balance where
  "zeroBalanceEntry = \<lparr>contractAddress = ''0xaa'',
     tokenBalance = ''0x0000000000000000000000000000000000000000000000000000000000000000''\<rparr>"

definition zeroWorld :: world where
  "zeroWorld = walletWorld\<lparr>alchemy := RpcResult [zeroBalanceEntry],
     balanceOf := (\<lambda>a. Some 0)\<rparr>"



text \<open>The key under which \<^verbatim>\<open>_fetchTokenPricesInChunks\<close> of v3.1 records its fallback.\<close>

definition priceKey :: "string \<Rightarrow> string" where
  "priceKey identifier = (if startsWith0x identifier then toLowerCase identifier else identifier)"

text \<open>A price oracle that knows token A and ether and answers the request for the
  address \<^verbatim>\<open>0xdd\<close> with an error status.\<close>

definition chunkWorld :: world where
  "chunkWorld = baseWorld\<lparr>
     priceOracle := (\<lambda>pf q. if q = ''0xaa'' then Ok [(''0xaa'', \<lparr>usd = 2\<rparr>)] else NotOk),
     nativeOracle := (\<lambda>q. if q = ''ethereum'' then Ok [(''ethereum'', \<lparr>usd = 2000\<rparr>)] else NotOk)\<rparr>"

text \<open>A request for the price of one address is answered, when the status is ok, by an
  object that is empty or holds the one entry of that address in lower case.\<close>

definition singleReplies :: "world \<Rightarrow> string \<Rightarrow> string list \<Rightarrow> bool" where
  "singleReplies w assetPlatform ids =
     list_all (\<lambda>a. case priceOracle w assetPlatform a of
                      Ok data \<Rightarrow> (case data of [] \<Rightarrow> True
                                   | [kv] \<Rightarrow> fst kv = toLowerCase a
                                   | kv # kv' # kvs \<Rightarrow> False)
                    | NotOk \<Rightarrow> True
                    | Rejected \<Rightarrow> True) ids"

text \<open>What a reply to the request for one address contributes to \<^verbatim>\<open>newPrices\<close>.\<close>

definition fetchedPrice :: "world \<Rightarrow> string \<Rightarrow> string \<Rightarrow> price_data option" where
  "fetchedPrice w assetPlatform a =
     (case priceOracle w assetPlatform a of
        Ok data \<Rightarrow> Some (case map_of data (toLowerCase a) of Some p \<Rightarrow> p | None \<Rightarrow> \<lparr>usd = 0\<rparr>)
      | NotOk \<Rightarrow> None
      | Rejected \<Rightarrow> None)"

text \<open>A cache that holds token A at price 2, observed 999 ms before the clock of
  \<open>baseWorld\<close>, and token B at price 900, observed more than five minutes before.\<close>

definition cacheAB :: price_cache where
  "cacheAB = [''0xaa'' \<mapsto> \<lparr>price = \<lparr>usd = 2\<rparr>, timestamp = 1700000000000\<rparr>,
              ''0xbb'' \<mapsto> \<lparr>price = \<lparr>usd = 900\<rparr>, timestamp = 1699999000000\<rparr>]"

text \<open>The wallet on a chain without a price platform, and the wallet when the request
  for the address \<^verbatim>\<open>0xdd\<close> rejects.\<close>

definition offPlatformWorld :: world where
  "offPlatformWorld = walletWorld\<lparr>currentUserChainId := 5\<rparr>"

definition rejectingWorld :: world where
  "rejectingWorld = walletWorld\<lparr>priceOracle := (\<lambda>pf q.
     if q = ''0xbb'' then Ok [(''0xbb'', \<lparr>usd = 1000\<rparr>)] else Rejected)\<rparr>"

text \<open>The value the loop of \<^verbatim>\<open>_findHighestValueToken\<close> compares for a token: its fiat value
  when a price other than zero is known; a token without such a price never replaces
  the running maximum, which starts at -1.\<close>

definition loopValue :: "prices \<Rightarrow> token_data \<Rightarrow> rat" where
  "loopValue ps t =
     (case map_of ps (toLowerCase (tokenAddress t)) of
        None \<Rightarrow> - 1
      | Some priceData \<Rightarrow>
          if usd priceData \<noteq> 0 then usdValueOf (balance t) (decimals t) (usd priceData) else - 1)"

section \<open>Properties\<close>

subsection \<open>The fee reserve of the native asset\<close>

lemma pushAll_types:
  assumes "pushAll f xs = Inr ys" and "\<And>x zs z. f x = Inr zs \<Longrightarrow> z \<in> set zs \<Longrightarrow> P z"
  shows "\<forall>y\<in>set ys. P y"
  using assms(1)
proof (induction xs arbitrary: ys)
  case Nil
  then show ?case by simp
next
  case (Cons x xs)
  then show ?case using assms(2)
    by (auto split: sum.splits)
qed

lemma erc20Asset_type:
  "erc20Asset token dec sy p = Inr zs \<Longrightarrow> z \<in> set zs \<Longrightarrow> assetType z = ERC20"
  by (auto simp: erc20Asset_def Let_def split: option.splits if_splits)

lemma processERC20_v30_type:
  "processERC20_v30 w ps token = Inr zs \<Longrightarrow> z \<in> set zs \<Longrightarrow> assetType z = ERC20"
  by (auto simp: processERC20_v30_def split: option.splits if_splits metadata_reply.splits
      dest: erc20Asset_type)

lemma processERC20_type:
  "processERC20 w ps token = Inr zs \<Longrightarrow> z \<in> set zs \<Longrightarrow> assetType z = ERC20"
  by (auto simp: processERC20_def split: option.splits if_splits metadata_reply.splits
      dest: erc20Asset_type)

lemma processETH_cases:
  assumes "processETH gas w b ps = Inr native"
  shows "native = [] \<or> (\<exists>fd fee v. getFeeData w = Some fd \<and> estimatedFee gas fd = Inr fee \<and> fee < b
           \<and> native = [\<lparr>assetType = ETH, assetBalance = b - fee, assetAddress = None,
                         assetSymbol = ''ETH'', assetUsdValue = v\<rparr>])"
  using assms by (auto simp: processETH_def Let_def split: if_splits option.splits sum.splits)

lemma findAllAssetsWith_native:
  assumes r: "findAllAssetsWith gas chunked step w = Inr assets"
    and b: "getBalance w = Some b"
    and st: "\<And>ps x zs z. step w ps x = Inr zs \<Longrightarrow> z \<in> set zs \<Longrightarrow> assetType z = ERC20"
    and x: "x \<in> set assets" "assetType x = ETH"
  shows "\<exists>fd fee. getFeeData w = Some fd \<and> estimatedFee gas fd = Inr fee \<and> fee < b
           \<and> assetBalance x = b - fee"
proof -
  from r b x(1) obtain tbs native tokens ps where
    n: "processETH gas w b ps = Inr native"
    and t: "pushAll (step w ps) (nonZeroBalances tbs) = Inr tokens"
    and a: "assets = native @ tokens"
    by (auto simp: findAllAssetsWith_def Let_def split: rpc_reply.splits sum.splits)
  from pushAll_types[OF t, where P = "\<lambda>z. assetType z = ERC20"] st
  have "\<forall>y\<in>set tokens. assetType y = ERC20" by blast
  with x a have "x \<in> set native" by auto
  with processETH_cases[OF n] show ?thesis by auto
qed

text \<open>
  C8. In both versions of \<^verbatim>\<open>_findAllAssets\<close> (200000 gas in v3.0, 300000 in v3.1), whenever the
  scan returns its list: an entry for the native currency is in the list only if the
  balance exceeds the reserve (fee per gas times the fixed gas amount), and it then
  carries the balance minus the reserve; if the reserve is at least the balance, the
  list holds no native entry.
\<close>

theorem native_asset_fee_reserve:
  assumes "(gas, f) \<in> {(200000, findAllAssets_v30), (300000, findAllAssets)}"
    and "f w = Inr assets" and "getBalance w = Some b"
  shows "(\<forall>x\<in>set assets. assetType x = ETH \<longrightarrow>
            (\<exists>fd fee. getFeeData w = Some fd \<and> estimatedFee gas fd = Inr fee \<and> fee < b
               \<and> assetBalance x = b - fee))
       \<and> (\<forall>fd fee. getFeeData w = Some fd \<and> estimatedFee gas fd = Inr fee \<and> b \<le> fee
            \<longrightarrow> (\<forall>x\<in>set assets. assetType x \<noteq> ETH))"
proof -
  have main: "\<exists>fd fee. getFeeData w = Some fd \<and> estimatedFee gas fd = Inr fee \<and> fee < b
                \<and> assetBalance x = b - fee"
    if x: "x \<in> set assets" "assetType x = ETH" for x
  proof -
    from assms(1) consider "gas = 200000" "f = findAllAssets_v30" | "gas = 300000" "f = findAllAssets"
      by auto
    then show ?thesis
    proof cases
      case 1
      with assms(2)
      have "findAllAssetsWith gas fetchTokenPricesInChunks_v30 processERC20_v30 w = Inr assets"
        by (simp add: findAllAssets_v30_def)
      from findAllAssetsWith_native[OF this assms(3) processERC20_v30_type x] show ?thesis .
    next
      case 2
      with assms(2)
      have "findAllAssetsWith gas fetchTokenPricesInChunks processERC20 w = Inr assets"
        by (simp add: findAllAssets_def)
      from findAllAssetsWith_native[OF this assms(3) processERC20_type x] show ?thesis .
    qed
  qed
  show ?thesis
  proof (intro conjI ballI impI allI)
    fix x assume "x \<in> set assets" "assetType x = ETH"
    then show "\<exists>fd fee. getFeeData w = Some fd \<and> estimatedFee gas fd = Inr fee \<and> fee < b
                 \<and> assetBalance x = b - fee"
      by (rule main)
  next
    fix fd fee x
    assume h: "getFeeData w = Some fd \<and> estimatedFee gas fd = Inr fee \<and> b \<le> fee"
      and x: "x \<in> set assets"
    show "assetType x \<noteq> ETH"
    proof
      assume "assetType x = ETH"
      from main[OF x this] h show False by auto
    qed
  qed
qed

lemmas findAllAssets_v30_unfold =
  findAllAssets_v30_def findAllAssetsWith_def nonZeroBalances_def
  fetchTokenPricesInChunks_v30_def chunkStep_v30_def fetchTokenPrices_7702_def
  CHAIN_ID_TO_COINGECKO_ASSET_PLATFORM_v1_def startsWith0x_def respond_def assign_def
  processETH_def usdValueOf_def estimatedFee_def Let_def

text \<open>The scenario of the specification: 0.01 ether against a reserve of 0.015 ether.\<close>

lemma native_asset_excluded_scenario:
  "findAllAssets_v30 shortWorld = Inr []"
  by (simp add: findAllAssets_v30_unfold shortWorld_def baseWorld_def)

lemma native_asset_included_scenario:
  "findAllAssets_v30 fundedWorld =
     Inr [\<lparr>assetType = ETH, assetBalance = 985000000000000000, assetAddress = None,
           assetSymbol = ''ETH'', assetUsdValue = 2000\<rparr>]"
  by (simp add: findAllAssets_v30_unfold fundedWorld_def shortWorld_def baseWorld_def)

theorem native_asset_fee_reserve_witness:
  "findAllAssets_v30 fundedWorld =
     Inr [\<lparr>assetType = ETH, assetBalance = 985000000000000000, assetAddress = None,
           assetSymbol = ''ETH'', assetUsdValue = 2000\<rparr>]
   \<and> getBalance fundedWorld = Some 1000000000000000000
   \<and> getFeeData fundedWorld = Some \<lparr>maxFeePerGas = Some 75000000000, gasPrice = None\<rparr>
   \<and> estimatedFee 200000 \<lparr>maxFeePerGas = Some 75000000000, gasPrice = None\<rparr>
       = Inr 15000000000000000
   \<and> 985000000000000000 = 1000000000000000000 - (15000000000000000 :: nat)"
proof -
  have h1: "(200000, findAllAssets_v30) \<in> {(200000, findAllAssets_v30), (300000, findAllAssets)}"
    by simp
  have h3: "getBalance fundedWorld = Some 1000000000000000000"
    by (simp add: fundedWorld_def)
  have h4: "getFeeData fundedWorld = Some \<lparr>maxFeePerGas = Some 75000000000, gasPrice = None\<rparr>"
    by (simp add: fundedWorld_def shortWorld_def)
  have h5: "estimatedFee 200000 \<lparr>maxFeePerGas = Some 75000000000, gasPrice = None\<rparr>
              = Inr 15000000000000000"
    by (simp add: estimatedFee_def)
  from native_asset_fee_reserve[OF h1 native_asset_included_scenario h3] h3 h4 h5
    native_asset_included_scenario
  show ?thesis by simp
qed

subsection \<open>Deadline and nonce of a permit\<close>

text \<open>
  C2. In every build of a single-asset authorization (\<^verbatim>\<open>_signAndSendWithStandardPermit\<close> of
  either file) whose nonce read succeeds, exactly one message is handed to the signer; its
  deadline is the clock reading in whole seconds plus 1800, and its nonce is the value the
  contract's \<^verbatim>\<open>nonces(owner)\<close> returns in that build. The read is the first call of the
  build, hence before the signing, and happens exactly once per build: a second build, in
  a world where the contract has moved on, signs the value read then.
\<close>

theorem permit_deadline_and_fresh_nonce:
  assumes "build = (\<lambda>w t. signAndSendWithStandardPermit w t v) \<or> build = signAndSendWithStandardPermit_v1"
    and "nonces w (tokenAddress t) = Some n" and "nonces w' (tokenAddress t) = Some n'"
  shows "map deadline (signedMessages (fst (build w t))) = [clock w div 1000 + 1800]
       \<and> map nonce (signedMessages (fst (build w t))) = [n]
       \<and> map nonce (signedMessages (fst (build w' t))) = [n']
       \<and> hd (fst (build w t)) = ContractCall (tokenAddress t) ''nonces''
       \<and> count_list (fst (build w t)) (ContractCall (tokenAddress t) ''nonces'') = 1
       \<and> count_list (fst (build w' t)) (ContractCall (tokenAddress t) ''nonces'') = 1"
  using assms
  by (auto simp: signAndSendWithStandardPermit_def signAndSendWithStandardPermit_v1_def
      permitFlow_def Let_def split: option.splits)

theorem permit_deadline_and_fresh_nonce_witness:
  "nonces permitWorld (tokenAddress tokenA) = Some 7
   \<and> nonces (permitWorld\<lparr>nonces := (\<lambda>a. Some 8)\<rparr>) (tokenAddress tokenA) = Some 8
   \<and> map deadline (signedMessages (fst (signAndSendWithStandardPermit permitWorld tokenA 200)))
       = [1700001800]
   \<and> map nonce (signedMessages (fst (signAndSendWithStandardPermit permitWorld tokenA 200))) = [7]
   \<and> map nonce (signedMessages (fst (signAndSendWithStandardPermit
       (permitWorld\<lparr>nonces := (\<lambda>a. Some 8)\<rparr>) tokenA 200))) = [8]"
proof -
  have h1: "nonces permitWorld (tokenAddress tokenA) = Some 7"
    by (simp add: permitWorld_def baseWorld_def tokenA_def)
  have h2: "nonces (permitWorld\<lparr>nonces := (\<lambda>a. Some 8)\<rparr>) (tokenAddress tokenA) = Some 8"
    by simp
  have c: "clock permitWorld div 1000 + 1800 = 1700001800"
    by (simp add: permitWorld_def baseWorld_def)
  from permit_deadline_and_fresh_nonce[OF disjI1[OF refl] h1 h2, of 200] h1 h2 c
  show ?thesis by simp
qed

subsection \<open>Evaluating the scans on concrete worlds\<close>

lemmas world_unfold =
  walletWorld_def unpricedWorld_def namelessWorld_def singleWorld_def zeroWorld_def
  zeroBalanceEntry_def baseWorld_def tokenA_def tokenB_def

lemmas scan_unfold =
  findHighestValueToken_def getAlchemyUrl_def nonZeroBalances_def compatibleTokens_def
  checkToken_def checkPermitSupport_def readMetadata_def List.map_filter_def Let_def

lemmas fetchTokenPrices_unfold =
  fetchTokenPrices_def CHAIN_ID_TO_COINGECKO_ASSET_PLATFORM_def cacheStep_def fetchOne_def
  toLowerCase_def assign_def cacheWrite_def CACHE_DURATION_MS_def Let_def

lemma compatibleTokens_walletWorld:
  "compatibleTokens checkPermitSupport walletWorld
     (nonZeroBalances [\<lparr>contractAddress = ''0xaa'', tokenBalance = ''0x5f5e100''\<rparr>,
        \<lparr>contractAddress = ''0xcc'', tokenBalance = ''0x1''\<rparr>,
        \<lparr>contractAddress = ''0xbb'', tokenBalance = ''0x4563918244f40000''\<rparr>])
   = Inr [tokenA, tokenB]"
  by (simp add: scan_unfold world_unfold)

lemma compatibleTokens_singleWorld:
  "compatibleTokens checkPermitSupport singleWorld
     (nonZeroBalances [\<lparr>contractAddress = ''0xaa'', tokenBalance = ''0x5f5e100''\<rparr>])
   = Inr [tokenA]"
  by (simp add: scan_unfold world_unfold)

lemma findHighestValueToken_walletWorld:
  "snd (snd (findHighestValueToken walletWorld Map.empty))
     = Inr (Some \<lparr>tokenData = tokenB, usdValue = 5000\<rparr>)"
  by (simp add: scan_unfold world_unfold fetchTokenPrices_unfold highestStep_def usdValueOf_def)

lemma findHighestValueToken_unpricedWorld:
  "snd (snd (findHighestValueToken unpricedWorld Map.empty))
     = Inr (Some \<lparr>tokenData = tokenA, usdValue = 0\<rparr>)"
  by (simp add: scan_unfold world_unfold fetchTokenPrices_unfold highestStep_def usdValueOf_def)


subsection \<open>Probe failures, metadata failures and the scan\<close>


lemma promiseAll_Inr_D: "promiseAll ps = Inr vs \<Longrightarrow> ps = map Inr vs"
proof (induction ps arbitrary: vs)
  case Nil
  then show ?case by auto
next
  case (Cons p ps)
  then show ?case by (cases p) (auto split: sum.splits)
qed



lemma promiseAll_Inl: "promiseAll ps = Inl e \<Longrightarrow> Inl e \<in> set ps"
proof (induction ps)
  case Nil
  then show ?case by simp
next
  case (Cons p ps)
  then show ?case by (cases p) (auto split: sum.splits)
qed







subsection \<open>Selecting the highest-value token\<close>

lemma probes_no_price_events:
  "filter isFetchTokenPrices (concat (map (\<lambda>t. fst (checkPermitSupport w (contractAddress t))) nz)) = []"
  "filter isPriceRequest (concat (map (\<lambda>t. fst (checkPermitSupport w (contractAddress t))) nz)) = []"
  by (induction nz) (auto simp: checkPermitSupport_def)

lemma probes_v1_no_price_events:
  "filter isFetchTokenPrices (concat (map (\<lambda>t. fst (checkPermitSupport_v1 w (contractAddress t))) nz)) = []"
  "filter isPriceRequest (concat (map (\<lambda>t. fst (checkPermitSupport_v1 w (contractAddress t))) nz)) = []"
  by (induction nz) (auto simp: checkPermitSupport_v1_def split: option.splits)

lemma compatibleTokens_Nil [simp]: "compatibleTokens probe w [] = Inr []"
  by (simp add: compatibleTokens_def List.map_filter_def)

text \<open>
  C5. When the scan yields exactly one compatible token, \<^verbatim>\<open>_findHighestValueToken\<close> returns
  it: with \<^verbatim>\<open>usdValue: 0\<close> in \<^verbatim>\<open>payment-sdk-multichain.js\<close>, as the bare token in \<^verbatim>\<open>new.js\<close>.
  The run never enters \<^verbatim>\<open>_fetchTokenPrices\<close>, sends no request to the price oracle and
  leaves the price cache as it was; the result is a value, not an error.
\<close>

theorem single_compatible_token_skips_pricing:
  assumes "alchemy w = RpcResult tbs"
  shows "(getAlchemyUrl (currentUserChainId w) = Inr url
            \<and> compatibleTokens checkPermitSupport w (nonZeroBalances tbs) = Inr [t]
          \<longrightarrow> snd (snd (findHighestValueToken w c)) = Inr (Some \<lparr>tokenData = t, usdValue = 0\<rparr>)
            \<and> filter isFetchTokenPrices (fst (findHighestValueToken w c)) = []
            \<and> filter isPriceRequest (fst (findHighestValueToken w c)) = []
            \<and> fst (snd (findHighestValueToken w c)) = c)
       \<and> (compatibleTokens checkPermitSupport_v1 w (nonZeroBalances tbs) = Inr [t]
          \<longrightarrow> snd (findHighestValueToken_v1 w) = Inr (Some t)
            \<and> filter isFetchTokenPrices (fst (findHighestValueToken_v1 w)) = []
            \<and> filter isPriceRequest (fst (findHighestValueToken_v1 w)) = [])"
proof (intro conjI impI)
  assume h: "getAlchemyUrl (currentUserChainId w) = Inr url
            \<and> compatibleTokens checkPermitSupport w (nonZeroBalances tbs) = Inr [t]"
  then have nz: "nonZeroBalances tbs \<noteq> []" by auto
  from h nz assms
  have r: "findHighestValueToken w c =
     (concat (map (\<lambda>t. fst (checkPermitSupport w (contractAddress t))) (nonZeroBalances tbs)),
      c, Inr (Some \<lparr>tokenData = t, usdValue = 0\<rparr>))"
    by (simp add: findHighestValueToken_def Let_def)
  show "snd (snd (findHighestValueToken w c)) = Inr (Some \<lparr>tokenData = t, usdValue = 0\<rparr>)"
    and "fst (snd (findHighestValueToken w c)) = c"
    by (simp_all add: r)
  show "filter isFetchTokenPrices (fst (findHighestValueToken w c)) = []"
    and "filter isPriceRequest (fst (findHighestValueToken w c)) = []"
    by (simp_all add: r probes_no_price_events)
next
  assume h: "compatibleTokens checkPermitSupport_v1 w (nonZeroBalances tbs) = Inr [t]"
  then have nz: "nonZeroBalances tbs \<noteq> []" by auto
  from h nz assms
  have r: "findHighestValueToken_v1 w =
     (concat (map (\<lambda>t. fst (checkPermitSupport_v1 w (contractAddress t))) (nonZeroBalances tbs)),
      Inr (Some t))"
    by (simp add: findHighestValueToken_v1_def Let_def)
  show "snd (findHighestValueToken_v1 w) = Inr (Some t)"
    by (simp add: r)
  show "filter isFetchTokenPrices (fst (findHighestValueToken_v1 w)) = []"
    and "filter isPriceRequest (fst (findHighestValueToken_v1 w)) = []"
    by (simp_all add: r probes_v1_no_price_events)
qed

theorem single_compatible_token_skips_pricing_witness:
  "alchemy singleWorld = RpcResult [\<lparr>contractAddress = ''0xaa'', tokenBalance = ''0x5f5e100''\<rparr>]
   \<and> getAlchemyUrl (currentUserChainId singleWorld) = Inr ''eth-mainnet''
   \<and> compatibleTokens checkPermitSupport singleWorld
        (nonZeroBalances [\<lparr>contractAddress = ''0xaa'', tokenBalance = ''0x5f5e100''\<rparr>]) = Inr [tokenA]
   \<and> snd (snd (findHighestValueToken singleWorld Map.empty))
        = Inr (Some \<lparr>tokenData = tokenA, usdValue = 0\<rparr>)
   \<and> filter isFetchTokenPrices (fst (findHighestValueToken singleWorld Map.empty)) = []
   \<and> filter isPriceRequest (fst (findHighestValueToken singleWorld Map.empty)) = []"
proof -
  have a: "alchemy singleWorld = RpcResult [\<lparr>contractAddress = ''0xaa'', tokenBalance = ''0x5f5e100''\<rparr>]"
    by (simp add: world_unfold)
  have u: "getAlchemyUrl (currentUserChainId singleWorld) = Inr ''eth-mainnet''"
    by (simp add: world_unfold getAlchemyUrl_def)
  from single_compatible_token_skips_pricing[OF a, where url = "''eth-mainnet''" and t = tokenA
      and c = Map.empty] a u compatibleTokens_singleWorld
  show ?thesis by simp
qed

lemma highestStep_unpriced:
  assumes "\<forall>t\<in>set ts. \<forall>p. map_of ps (toLowerCase (tokenAddress t)) = Some p \<longrightarrow> usd p = 0"
  shows "fold (highestStep ps) ts acc = acc"
  using assms by (induction ts arbitrary: acc) (auto simp: highestStep_def split: option.splits)

lemma highestStep_member:
  "fst (fold (highestStep ps) ts acc) = Some h \<Longrightarrow> fst acc = Some h \<or> h \<in> set ts"
proof (induction ts arbitrary: acc)
  case Nil
  then show ?case by simp
next
  case (Cons t ts)
  from Cons.IH[of "highestStep ps t acc"] Cons.prems
  have "fst (highestStep ps t acc) = Some h \<or> h \<in> set ts" by simp
  then show ?case
    by (auto simp: highestStep_def Let_def split: option.splits if_splits)
qed

text \<open>
  C10. When the scan yields at least one compatible token, \<^verbatim>\<open>_findHighestValueToken\<close> returns
  one of the compatible tokens and never \<^verbatim>\<open>null\<close>. When no compatible token has a price
  other than zero in what the price fetch returned (the fetch failed, or it knows no
  price, or only the price zero, the oracle's prices being non-negative), the token
  returned is the first compatible one, reported at fiat value 0 in
  \<^verbatim>\<open>payment-sdk-multichain.js\<close>. A \<^verbatim>\<open>null\<close> result means that no listed balance passed the
  zero filter or that no token was compatible.
\<close>

theorem highest_value_selection_never_empty:
  assumes "alchemy w = RpcResult tbs"
  shows "(getAlchemyUrl (currentUserChainId w) = Inr url
            \<and> compatibleTokens checkPermitSupport w (nonZeroBalances tbs) = Inr toks \<and> toks \<noteq> []
          \<longrightarrow> (\<exists>sel. snd (snd (findHighestValueToken w c)) = Inr (Some sel)
                 \<and> tokenData sel \<in> set toks
                 \<and> ((\<forall>t\<in>set toks. \<forall>p.
                        map_of (snd (snd (fetchTokenPrices w c (map tokenAddress toks))))
                          (toLowerCase (tokenAddress t)) = Some p \<longrightarrow> usd p = 0)
                     \<longrightarrow> sel = \<lparr>tokenData = hd toks, usdValue = 0\<rparr>)))
       \<and> (getAlchemyUrl (currentUserChainId w) = Inr url
            \<and> snd (snd (findHighestValueToken w c)) = Inr None
          \<longrightarrow> nonZeroBalances tbs = []
              \<or> compatibleTokens checkPermitSupport w (nonZeroBalances tbs) = Inr [])
       \<and> (compatibleTokens checkPermitSupport_v1 w (nonZeroBalances tbs) = Inr toks \<and> toks \<noteq> []
          \<longrightarrow> (\<exists>tok. snd (findHighestValueToken_v1 w) = Inr (Some tok) \<and> tok \<in> set toks
                 \<and> ((case snd (fetchTokenPrices_v1 w (map (\<lambda>x. toLowerCase (tokenAddress x)) toks)) of
                       None \<Rightarrow> True
                     | Some ps \<Rightarrow> \<forall>t\<in>set toks. \<forall>p.
                         map_of ps (toLowerCase (tokenAddress t)) = Some p \<longrightarrow> usd p = 0)
                     \<longrightarrow> tok = hd toks)))
       \<and> (snd (findHighestValueToken_v1 w) = Inr None
          \<longrightarrow> nonZeroBalances tbs = []
              \<or> compatibleTokens checkPermitSupport_v1 w (nonZeroBalances tbs) = Inr [])"
proof (intro conjI impI)
  assume h: "getAlchemyUrl (currentUserChainId w) = Inr url
            \<and> compatibleTokens checkPermitSupport w (nonZeroBalances tbs) = Inr toks \<and> toks \<noteq> []"
  then have nz: "nonZeroBalances tbs \<noteq> []" by auto
  from h obtain t ts where toks: "toks = t # ts" by (cases toks) auto
  show "\<exists>sel. snd (snd (findHighestValueToken w c)) = Inr (Some sel)
                 \<and> tokenData sel \<in> set toks
                 \<and> ((\<forall>t\<in>set toks. \<forall>p.
                        map_of (snd (snd (fetchTokenPrices w c (map tokenAddress toks))))
                          (toLowerCase (tokenAddress t)) = Some p \<longrightarrow> usd p = 0)
                     \<longrightarrow> sel = \<lparr>tokenData = hd toks, usdValue = 0\<rparr>)"
  proof (cases ts)
    case Nil
    with h nz assms toks show ?thesis
      by (simp add: findHighestValueToken_def Let_def)
  next
    case (Cons t' ts')
    obtain evs c' ps where f: "fetchTokenPrices w c (map tokenAddress toks) = (evs, c', ps)"
      by (cases "fetchTokenPrices w c (map tokenAddress toks)") auto
    let ?best = "fold (highestStep ps) toks (None, - 1)"
    let ?sel = "\<lparr>tokenData = (case fst ?best of Some h \<Rightarrow> h | None \<Rightarrow> t),
                 usdValue = (if snd ?best > - 1 then snd ?best else 0)\<rparr>"
    from h nz assms toks Cons f
    have r: "snd (snd (findHighestValueToken w c)) = Inr (Some ?sel)"
      by (simp add: findHighestValueToken_def Let_def)
    have m: "tokenData ?sel \<in> set toks"
      using highestStep_member[of ps toks "(None, - 1)"] toks
      by (auto split: option.splits)
    have d: "?sel = \<lparr>tokenData = hd toks, usdValue = 0\<rparr>"
      if "\<forall>t\<in>set toks. \<forall>p. map_of ps (toLowerCase (tokenAddress t)) = Some p \<longrightarrow> usd p = 0"
      using highestStep_unpriced[OF that, of "(None, - 1)"] toks by simp
    from r m d f show ?thesis by simp
  qed
next
  assume "getAlchemyUrl (currentUserChainId w) = Inr url
            \<and> snd (snd (findHighestValueToken w c)) = Inr None"
  with assms show "nonZeroBalances tbs = []
              \<or> compatibleTokens checkPermitSupport w (nonZeroBalances tbs) = Inr []"
    by (auto simp: findHighestValueToken_def Let_def
        split: sum.splits if_splits list.splits prod.splits)
next
  assume h: "compatibleTokens checkPermitSupport_v1 w (nonZeroBalances tbs) = Inr toks \<and> toks \<noteq> []"
  then have nz: "nonZeroBalances tbs \<noteq> []" by auto
  from h obtain t ts where toks: "toks = t # ts" by (cases toks) auto
  let ?f = "fetchTokenPrices_v1 w (map (\<lambda>x. toLowerCase (tokenAddress x)) toks)"
  show "\<exists>tok. snd (findHighestValueToken_v1 w) = Inr (Some tok) \<and> tok \<in> set toks
                 \<and> ((case snd ?f of
                       None \<Rightarrow> True
                     | Some ps \<Rightarrow> \<forall>t\<in>set toks. \<forall>p.
                         map_of ps (toLowerCase (tokenAddress t)) = Some p \<longrightarrow> usd p = 0)
                     \<longrightarrow> tok = hd toks)"
  proof (cases ts)
    case Nil
    with h nz assms toks show ?thesis
      by (simp add: findHighestValueToken_v1_def Let_def)
  next
    case (Cons t' ts')
    obtain evs po where f: "?f = (evs, po)" by (cases ?f) auto
    show ?thesis
    proof (cases po)
      case None
      with h nz assms toks Cons f show ?thesis
        by (simp add: findHighestValueToken_v1_def Let_def)
    next
      case (Some ps)
      let ?best = "fold (highestStep ps) toks (None, - 1)"
      let ?tok = "(case fst ?best of Some h \<Rightarrow> h | None \<Rightarrow> t)"
      from h nz assms toks Cons f Some
      have r: "snd (findHighestValueToken_v1 w) = Inr (Some ?tok)"
        by (simp add: findHighestValueToken_v1_def Let_def)
      have m: "?tok \<in> set toks"
        using highestStep_member[of ps toks "(None, - 1)"] toks
        by (auto split: option.splits)
      have d: "?tok = hd toks"
        if "\<forall>t\<in>set toks. \<forall>p. map_of ps (toLowerCase (tokenAddress t)) = Some p \<longrightarrow> usd p = 0"
        using highestStep_unpriced[OF that, of "(None, - 1)"] toks by simp
      from r m d f Some show ?thesis by simp
    qed
  qed
next
  assume "snd (findHighestValueToken_v1 w) = Inr None"
  with assms show "nonZeroBalances tbs = []
              \<or> compatibleTokens checkPermitSupport_v1 w (nonZeroBalances tbs) = Inr []"
    by (auto simp: findHighestValueToken_v1_def Let_def
        split: sum.splits if_splits list.splits prod.splits option.splits)
qed
lemma compatibleTokens_unpricedWorld:
  "compatibleTokens checkPermitSupport unpricedWorld
     (nonZeroBalances [\<lparr>contractAddress = ''0xaa'', tokenBalance = ''0x5f5e100''\<rparr>,
        \<lparr>contractAddress = ''0xcc'', tokenBalance = ''0x1''\<rparr>,
        \<lparr>contractAddress = ''0xbb'', tokenBalance = ''0x4563918244f40000''\<rparr>])
   = Inr [tokenA, tokenB]"
  by (simp add: scan_unfold world_unfold)

lemma fetchTokenPrices_unpricedWorld:
  "snd (snd (fetchTokenPrices unpricedWorld Map.empty [''0xaa'', ''0xbb''])) = []"
  by (simp add: world_unfold fetchTokenPrices_unfold)

theorem highest_value_selection_never_empty_witness:
  "alchemy unpricedWorld = RpcResult
      [\<lparr>contractAddress = ''0xaa'', tokenBalance = ''0x5f5e100''\<rparr>,
       \<lparr>contractAddress = ''0xcc'', tokenBalance = ''0x1''\<rparr>,
       \<lparr>contractAddress = ''0xbb'', tokenBalance = ''0x4563918244f40000''\<rparr>]
   \<and> getAlchemyUrl (currentUserChainId unpricedWorld) = Inr ''eth-mainnet''
   \<and> compatibleTokens checkPermitSupport unpricedWorld
        (nonZeroBalances [\<lparr>contractAddress = ''0xaa'', tokenBalance = ''0x5f5e100''\<rparr>,
           \<lparr>contractAddress = ''0xcc'', tokenBalance = ''0x1''\<rparr>,
           \<lparr>contractAddress = ''0xbb'', tokenBalance = ''0x4563918244f40000''\<rparr>])
        = Inr [tokenA, tokenB]
   \<and> snd (snd (fetchTokenPrices unpricedWorld Map.empty (map tokenAddress [tokenA, tokenB]))) = []
   \<and> snd (snd (findHighestValueToken unpricedWorld Map.empty))
        = Inr (Some \<lparr>tokenData = tokenA, usdValue = 0\<rparr>)"
proof -
  have a: "alchemy unpricedWorld = RpcResult
      [\<lparr>contractAddress = ''0xaa'', tokenBalance = ''0x5f5e100''\<rparr>,
       \<lparr>contractAddress = ''0xcc'', tokenBalance = ''0x1''\<rparr>,
       \<lparr>contractAddress = ''0xbb'', tokenBalance = ''0x4563918244f40000''\<rparr>]"
    by (simp add: world_unfold)
  have u: "getAlchemyUrl (currentUserChainId unpricedWorld) = Inr ''eth-mainnet''"
    by (simp add: world_unfold getAlchemyUrl_def)
  have p: "snd (snd (fetchTokenPrices unpricedWorld Map.empty (map tokenAddress [tokenA, tokenB]))) = []"
    using fetchTokenPrices_unpricedWorld by (simp add: tokenA_def tokenB_def)
  from highest_value_selection_never_empty[OF a, where url = "''eth-mainnet''"
      and toks = "[tokenA, tokenB]" and c = Map.empty] u compatibleTokens_unpricedWorld p
  have "snd (snd (findHighestValueToken unpricedWorld Map.empty))
        = Inr (Some \<lparr>tokenData = tokenA, usdValue = 0\<rparr>)"
    by auto
  with a u compatibleTokens_unpricedWorld p show ?thesis by simp
qed

subsection \<open>The zero-balance filter\<close>

lemma nonZeroBalances_discards_literal:
  "\<forall>t\<in>set (nonZeroBalances tbs). tokenBalance t \<noteq> ''0x0''"
  by (simp add: nonZeroBalances_def)

text \<open>
  C7 at a zero balance in the 32-byte encoding: the entry denotes the number zero,
  passes the filter, is probed, and is returned as the selected token with balance 0.
\<close>

theorem zero_padded_balance_is_kept:
  "hexQuantity (tokenBalance zeroBalanceEntry) = Some 0
   \<and> nonZeroBalances [zeroBalanceEntry] = [zeroBalanceEntry]
   \<and> fst (findHighestValueToken zeroWorld Map.empty) = [ContractCall ''0xaa'' ''nonces'']
   \<and> snd (snd (findHighestValueToken zeroWorld Map.empty))
       = Inr (Some \<lparr>tokenData = \<lparr>tokenAddress = ''0xaa'', name = ''Token A'', symbol = ''TKA'',
                                  balance = 0, decimals = 6\<rparr>, usdValue = 0\<rparr>)"
  by (simp add: scan_unfold world_unfold hexDigit_def)

subsection \<open>The capability probe\<close>

text \<open>
  C9, as the code has it. The probe of \<^verbatim>\<open>payment-sdk-multichain.js\<close> has no allow-list: it
  makes the one \<^verbatim>\<open>nonces(owner)\<close> read and returns whether the read succeeded. The probe of
  \<^verbatim>\<open>new.js\<close>, on an address that \<^verbatim>\<open>ethers.utils.getAddress\<close> accepts, returns a boolean and
  never an exception: true without any \<^verbatim>\<open>nonces\<close> read when the checksummed address is on
  the allow-list (its only call is the \<^verbatim>\<open>symbol()\<close> read for the log), and otherwise
  whether the \<^verbatim>\<open>nonces(owner)\<close> read succeeded.
\<close>

theorem capability_probe_total_and_boolean:
  "checkPermitSupport w a = ([ContractCall a ''nonces''], Inr (nonces w a \<noteq> None))
   \<and> (getAddress w a = Some cs \<longrightarrow>
        (if cs \<in> set KNOWN_PERMIT_TOKENS
         then checkPermitSupport_v1 w a = ([ContractCall cs ''symbol''], Inr True)
         else checkPermitSupport_v1 w a
                = ([ContractCall cs ''symbol'', ContractCall cs ''nonces''],
                   Inr (nonces w cs \<noteq> None))))"
  by (auto simp: checkPermitSupport_def checkPermitSupport_v1_def split: option.splits)

theorem capability_probe_total_and_boolean_witness:
  "getAddress walletWorld ''0xbb'' = Some ''0xbb''
   \<and> ''0xbb'' \<notin> set KNOWN_PERMIT_TOKENS
   \<and> checkPermitSupport_v1 walletWorld ''0xbb''
       = ([ContractCall ''0xbb'' ''symbol'', ContractCall ''0xbb'' ''nonces''], Inr True)
   \<and> checkPermitSupport walletWorld ''0xcc'' = ([ContractCall ''0xcc'' ''nonces''], Inr False)"
proof -
  have g: "getAddress walletWorld ''0xbb'' = Some ''0xbb''"
    by (simp add: world_unfold)
  have k: "''0xbb'' \<notin> set KNOWN_PERMIT_TOKENS"
    by (simp add: KNOWN_PERMIT_TOKENS_def)
  have n: "nonces walletWorld ''0xbb'' = Some 0" "nonces walletWorld ''0xcc'' = None"
    by (simp_all add: world_unfold)
  from capability_probe_total_and_boolean[of walletWorld "''0xbb''" "''0xbb''"]
    capability_probe_total_and_boolean[of walletWorld "''0xcc''" "''0xcc''"] g k n
  show ?thesis by simp
qed

text \<open>C9 as stated fails in \<^verbatim>\<open>new.js\<close>: for the first address of the allow-list the probe
  returns true after a call to the contract, the \<^verbatim>\<open>symbol()\<close> read.\<close>

theorem allow_listed_probe_contacts_contract_counterexample:
  "''0xC02aaA39b223FE8D0A0e5C4F27eAD9083C756Cc2'' \<in> set KNOWN_PERMIT_TOKENS
   \<and> checkPermitSupport_v1 baseWorld ''0xC02aaA39b223FE8D0A0e5C4F27eAD9083C756Cc2''
       = ([ContractCall ''0xC02aaA39b223FE8D0A0e5C4F27eAD9083C756Cc2'' ''symbol''], Inr True)"
  by (simp add: KNOWN_PERMIT_TOKENS_def checkPermitSupport_v1_def baseWorld_def)

subsection \<open>Ranking by fiat value\<close>

lemma valuate_tokenData [simp]: "tokenData (valuate po t) = t"
  by (auto simp: valuate_def split: option.splits)





subsection \<open>The price cache\<close>

lemma lowerChar_idem: "lowerChar (lowerChar ch) = lowerChar ch"
  by (cases ch) (auto simp: Let_def)

lemma toLowerCase_idem: "toLowerCase (toLowerCase s) = toLowerCase s"
  by (simp add: toLowerCase_def lowerChar_idem)

lemma cachedFresh_lower: "toLowerCase a = toLowerCase b \<Longrightarrow> cachedFresh c t a = cachedFresh c t b"
  by (simp add: cachedFresh_def)

lemma cacheStep_snd:
  "snd (cacheStep c t a acc) = snd acc @ (if cachedFresh c t a then [] else [a])"
  by (auto simp: cacheStep_def cachedFresh_def Let_def split: option.splits)

lemma cacheStep_fst:
  "map_of (fst (cacheStep c t a acc)) k =
     (if cachedFresh c t a \<and> toLowerCase a = k then map_option price (c k)
      else map_of (fst acc) k)"
  by (auto simp: cacheStep_def cachedFresh_def Let_def AList.update_conv' split: option.splits)

lemma cacheStep_toFetch:
  "snd (fold (cacheStep c t) ids acc) = snd acc @ filter (\<lambda>a. \<not> cachedFresh c t a) ids"
  by (induction ids arbitrary: acc) (simp_all add: cacheStep_snd)

lemma cacheStep_fromCache:
  "map_of (fst (fold (cacheStep c t) ids acc)) k =
     (if \<exists>a\<in>set ids. cachedFresh c t a \<and> toLowerCase a = k then map_option price (c k)
      else map_of (fst acc) k)"
proof (induction ids arbitrary: acc)
  case Nil
  then show ?case by simp
next
  case (Cons a ids)
  show ?case
    by (auto simp: Cons.IH cacheStep_fst)
qed

lemma assign_single: "assign acc [(k, v)] = AList.update k v acc"
  by (simp add: assign_def)

lemma assign_Nil: "assign acc [] = acc"
  by (simp add: assign_def)

lemma map_of_assign:
  "distinct (map fst src) \<Longrightarrow> map_of (assign tgt src) x = (map_of tgt ++ map_of src) x"
proof (induction src arbitrary: tgt)
  case Nil
  then show ?case by (simp add: assign_def)
next
  case (Cons kv src)
  obtain k v where kv: "kv = (k, v)" by (cases kv)
  from Cons.prems kv have d: "distinct (map fst src)" and nk: "k \<notin> fst ` set src" by auto
  from nk have n: "map_of src k = None" by (simp add: map_of_eq_None_iff)
  have "assign tgt (kv # src) = assign (AList.update k v tgt) src"
    by (simp add: assign_def kv)
  then have "map_of (assign tgt (kv # src)) x = (map_of (AList.update k v tgt) ++ map_of src) x"
    by (simp only: Cons.IH[OF d])
  also have "\<dots> = (map_of tgt ++ map_of (kv # src)) x"
    using n by (auto simp: map_add_def kv AList.update_conv' split: option.splits)
  finally show ?case .
qed

text \<open>The effect on \<^verbatim>\<open>newPrices\<close> of the reply to one address, for a well-formed reply.\<close>

lemma reduceStep_fetchOne:
  assumes "singleReplies w pf [b]" and "fetchOne w pf b = Inr r"
  shows "reduceStep r acc =
           (case fetchedPrice w pf b of None \<Rightarrow> acc
            | Some v \<Rightarrow> AList.update (toLowerCase b) v acc)"
proof (cases "priceOracle w pf b")
  case Rejected
  with assms show ?thesis by (simp add: fetchOne_def)
next
  case NotOk
  with assms show ?thesis by (auto simp: fetchOne_def fetchedPrice_def)
next
  case (Ok data)
  with assms(1) consider "data = []" | p where "data = [(toLowerCase b, p)]"
    by (cases data) (auto simp: singleReplies_def split: list.splits)
  then show ?thesis
  proof cases
    case 1
    with Ok assms(2) show ?thesis
      by (auto simp: fetchOne_def fetchedPrice_def assign_single)
  next
    case 2
    with Ok assms(2) show ?thesis
      by (auto simp: fetchOne_def fetchedPrice_def assign_single)
  qed
qed

lemma singleReplies_Cons:
  "singleReplies w pf (b # bs) \<longleftrightarrow> singleReplies w pf [b] \<and> singleReplies w pf bs"
  by (simp add: singleReplies_def)

lemma singleReplies_filter:
  "singleReplies w pf ids \<Longrightarrow> singleReplies w pf (filter P ids)"
  by (induction ids) (auto simp: singleReplies_def)

lemma newPrices_fold:
  assumes "singleReplies w pf bs" and "map (fetchOne w pf) bs = map Inr results"
  shows "fold reduceStep results acc =
           fold (\<lambda>b acc. case fetchedPrice w pf b of None \<Rightarrow> acc
                          | Some v \<Rightarrow> AList.update (toLowerCase b) v acc) bs acc"
  using assms
proof (induction bs arbitrary: results acc)
  case Nil
  then show ?case by simp
next
  case (Cons b bs)
  from Cons.prems(2) obtain r rs where rs: "results = r # rs" "fetchOne w pf b = Inr r"
    "map (fetchOne w pf) bs = map Inr rs"
    by (cases results) auto
  from Cons.prems(1) have w1: "singleReplies w pf [b]" and w2: "singleReplies w pf bs"
    by (simp_all add: singleReplies_Cons[of w pf b bs])
  show ?case
    by (simp add: rs(1) reduceStep_fetchOne[OF w1 rs(2)] Cons.IH[OF w2 rs(3)])
qed

lemma newPrices_keys:
  "fst ` set (fold (\<lambda>b acc. case fetchedPrice w pf b of None \<Rightarrow> acc
                          | Some v \<Rightarrow> AList.update (toLowerCase b) v acc) bs acc)
     \<subseteq> fst ` set acc \<union> toLowerCase ` set bs"
proof (induction bs arbitrary: acc)
  case Nil
  then show ?case by simp
next
  case (Cons b bs)
  show ?case
    using Cons.IH[of "case fetchedPrice w pf b of None \<Rightarrow> acc
                          | Some v \<Rightarrow> AList.update (toLowerCase b) v acc"]
    by (auto simp: AList.dom_update split: option.splits)
qed

lemma newPrices_distinct:
  "distinct (map fst acc) \<Longrightarrow>
   distinct (map fst (fold (\<lambda>b acc. case fetchedPrice w pf b of None \<Rightarrow> acc
                          | Some v \<Rightarrow> AList.update (toLowerCase b) v acc) bs acc))"
  by (induction bs arbitrary: acc) (auto simp: AList.distinct_update split: option.splits)

lemma newPrices_origin:
  assumes "map_of (fold (\<lambda>b acc. case fetchedPrice w pf b of None \<Rightarrow> acc
                          | Some v \<Rightarrow> AList.update (toLowerCase b) v acc) bs acc) k = Some p"
  shows "map_of acc k = Some p \<or> (\<exists>b\<in>set bs. toLowerCase b = k \<and> fetchedPrice w pf b = Some p)"
  using assms
proof (induction bs arbitrary: acc)
  case Nil
  then show ?case by simp
next
  case (Cons b bs)
  from Cons.IH[of "case fetchedPrice w pf b of None \<Rightarrow> acc
                          | Some v \<Rightarrow> AList.update (toLowerCase b) v acc"] Cons.prems
  show ?case
    by (auto simp: AList.update_conv' split: option.splits if_splits)
qed

lemma newPrices_present:
  assumes "b \<in> set bs" and "fetchedPrice w pf b = Some v"
  shows "\<exists>p. map_of (fold (\<lambda>b acc. case fetchedPrice w pf b of None \<Rightarrow> acc
                          | Some v \<Rightarrow> AList.update (toLowerCase b) v acc) bs acc) (toLowerCase b) = Some p"
proof -
  have mono: "\<exists>p. map_of (fold (\<lambda>b acc. case fetchedPrice w pf b of None \<Rightarrow> acc
                          | Some v \<Rightarrow> AList.update (toLowerCase b) v acc) cs acc) k = Some p"
    if "\<exists>p. map_of acc k = Some p" for cs acc k
    using that
  proof (induction cs arbitrary: acc)
    case Nil
    then show ?case by simp
  next
    case (Cons c cs)
    have "\<exists>p. map_of (case fetchedPrice w pf c of None \<Rightarrow> acc
                          | Some v \<Rightarrow> AList.update (toLowerCase c) v acc) k = Some p"
      using Cons.prems by (auto simp: AList.update_conv' split: option.splits)
    from Cons.IH[OF this] show ?case by simp
  qed
  from assms show ?thesis
  proof (induction bs arbitrary: acc)
    case Nil
    then show ?case by simp
  next
    case (Cons c bs)
    show ?case
    proof (cases "c = b")
      case True
      with Cons.prems(2) show ?thesis
        by (auto intro!: mono simp: AList.update_conv')
    next
      case False
      with Cons.prems have "b \<in> set bs" by simp
      from Cons.IH[OF this Cons.prems(2)] show ?thesis by simp
    qed
  qed
qed

lemma cacheWrite_fold:
  assumes "distinct (map fst al)" and "\<forall>k\<in>fst ` set al. toLowerCase k = k"
  shows "fold (cacheWrite t) al c k =
           (case map_of al k of Some v \<Rightarrow> Some \<lparr>price = v, timestamp = t\<rparr> | None \<Rightarrow> c k)"
  using assms
proof (induction al arbitrary: c)
  case Nil
  then show ?case by simp
next
  case (Cons kv al)
  obtain k0 v0 where kv: "kv = (k0, v0)" by (cases kv)
  from Cons.prems kv have d: "distinct (map fst al)" and l: "\<forall>k\<in>fst ` set al. toLowerCase k = k"
    and nk: "k0 \<notin> fst ` set al" and l0: "toLowerCase k0 = k0"
    by auto
  from nk have n: "map_of al k0 = None" by (simp add: map_of_eq_None_iff)
  have "fold (cacheWrite t) (kv # al) c k = fold (cacheWrite t) al (cacheWrite t kv c) k"
    by simp
  also have "\<dots> = (case map_of al k of Some v \<Rightarrow> Some \<lparr>price = v, timestamp = t\<rparr>
                      | None \<Rightarrow> cacheWrite t kv c k)"
    by (rule Cons.IH[OF d l])
  also have "\<dots> = (case map_of (kv # al) k of Some v \<Rightarrow> Some \<lparr>price = v, timestamp = t\<rparr>
                      | None \<Rightarrow> c k)"
    using n by (auto simp: kv cacheWrite_def l0 split: option.splits)
  finally show ?case .
qed
lemma fetchTokenPrices_platform:
  assumes "CHAIN_ID_TO_COINGECKO_ASSET_PLATFORM (currentUserChainId w) = Some pf"
  shows "fetchTokenPrices w c ids =
     (let toFetch = filter (\<lambda>a. \<not> cachedFresh c (clock w) a) ids;
          fromCache = fst (fold (cacheStep c (clock w)) ids ([], []))
      in if toFetch = [] then ([FetchTokenPrices ids], c, fromCache)
         else (case promiseAll (map (fetchOne w pf) toFetch) of
                 Inl e \<Rightarrow> (FetchTokenPrices ids # map PriceRequest toFetch, c, fromCache)
               | Inr results \<Rightarrow>
                   (FetchTokenPrices ids # map PriceRequest toFetch,
                    fold (cacheWrite (clock w)) (fold reduceStep results []) c,
                    assign fromCache (fold reduceStep results []))))"
  using assms by (simp add: fetchTokenPrices_def cacheStep_toFetch Let_def split: sum.splits)

lemma fetchTokenPrices_events:
  assumes "CHAIN_ID_TO_COINGECKO_ASSET_PLATFORM (currentUserChainId w) = Some pf"
  shows "fst (fetchTokenPrices w c ids) =
           FetchTokenPrices ids # map PriceRequest (filter (\<lambda>a. \<not> cachedFresh c (clock w) a) ids)"
  by (auto simp: fetchTokenPrices_platform[OF assms] Let_def split: sum.splits)

text \<open>The three outcomes of a call on a chain with a platform: everything cached, a
  rejected request, or new prices.\<close>

lemma fetchTokenPrices_outcome:
  fixes w :: world and c :: price_cache and ids :: "string list" and pf :: string
  assumes pf: "CHAIN_ID_TO_COINGECKO_ASSET_PLATFORM (currentUserChainId w) = Some pf"
    and wf: "singleReplies w pf ids"
  defines "toFetch \<equiv> filter (\<lambda>a. \<not> cachedFresh c (clock w) a) ids"
  defines "fromCache \<equiv> fst (fold (cacheStep c (clock w)) ids ([], []))"
  defines "np \<equiv> fold (\<lambda>b acc. case fetchedPrice w pf b of None \<Rightarrow> acc
                          | Some v \<Rightarrow> AList.update (toLowerCase b) v acc) toFetch []"
  shows "snd (fetchTokenPrices w c ids) = (c, fromCache)
       \<or> ((\<forall>b\<in>set toFetch. priceOracle w pf b \<noteq> Rejected)
           \<and> snd (fetchTokenPrices w c ids) = (fold (cacheWrite (clock w)) np c, assign fromCache np))"
    and "\<forall>b\<in>set toFetch. priceOracle w pf b \<noteq> Rejected \<Longrightarrow>
         snd (fetchTokenPrices w c ids) = (fold (cacheWrite (clock w)) np c, assign fromCache np)"
proof -
  have wf': "singleReplies w pf toFetch"
    unfolding toFetch_def by (rule singleReplies_filter[OF wf])
  have inr: "snd (fetchTokenPrices w c ids) = (fold (cacheWrite (clock w)) np c, assign fromCache np)"
    if r: "promiseAll (map (fetchOne w pf) toFetch) = Inr results" and ne: "toFetch \<noteq> []" for results
  proof -
    from promiseAll_Inr_D[OF r] have "map (fetchOne w pf) toFetch = map Inr results" .
    from newPrices_fold[OF wf' this, of "[]"] have "fold reduceStep results [] = np"
      by (simp add: np_def)
    with r ne show ?thesis
      by (simp add: fetchTokenPrices_platform[OF pf] Let_def toFetch_def[symmetric]
          fromCache_def[symmetric])
  qed
  have norej: "\<forall>b\<in>set toFetch. priceOracle w pf b \<noteq> Rejected"
    if r: "promiseAll (map (fetchOne w pf) toFetch) = Inr results" for results
  proof
    fix b assume b: "b \<in> set toFetch"
    from promiseAll_Inr_D[OF r] have "map (fetchOne w pf) toFetch = map Inr results" .
    then have "\<forall>x\<in>set toFetch. \<exists>y. fetchOne w pf x = Inr y"
      by (metis (no_types, lifting) imageE image_eqI list.set_map)
    with b obtain y where "fetchOne w pf b = Inr y" by auto
    then show "priceOracle w pf b \<noteq> Rejected"
      by (auto simp: fetchOne_def)
  qed
  show "snd (fetchTokenPrices w c ids) = (c, fromCache)
       \<or> ((\<forall>b\<in>set toFetch. priceOracle w pf b \<noteq> Rejected)
           \<and> snd (fetchTokenPrices w c ids) = (fold (cacheWrite (clock w)) np c, assign fromCache np))"
  proof (cases "toFetch = []")
    case True
    then show ?thesis
      by (simp add: fetchTokenPrices_platform[OF pf] Let_def toFetch_def[symmetric]
          fromCache_def[symmetric])
  next
    case False
    show ?thesis
    proof (cases "promiseAll (map (fetchOne w pf) toFetch)")
      case (Inl e)
      with False show ?thesis
        by (simp add: fetchTokenPrices_platform[OF pf] Let_def toFetch_def[symmetric]
            fromCache_def[symmetric])
    next
      case (Inr results)
      from inr[OF Inr False] norej[OF Inr] show ?thesis by simp
    qed
  qed
  show "snd (fetchTokenPrices w c ids) = (fold (cacheWrite (clock w)) np c, assign fromCache np)"
    if nr: "\<forall>b\<in>set toFetch. priceOracle w pf b \<noteq> Rejected"
  proof (cases "toFetch = []")
    case True
    then have "np = []" by (simp add: np_def)
    with True show ?thesis
      by (simp add: fetchTokenPrices_platform[OF pf] Let_def toFetch_def[symmetric]
          fromCache_def[symmetric] assign_Nil)
  next
    case False
    show ?thesis
    proof (cases "promiseAll (map (fetchOne w pf) toFetch)")
      case (Inl e)
      from promiseAll_Inl[OF Inl] obtain b where "b \<in> set toFetch" "fetchOne w pf b = Inl e"
        by auto
      with nr show ?thesis
        by (auto simp: fetchOne_def split: http_reply.splits)
    next
      case (Inr results)
      from inr[OF Inr False] show ?thesis .
    qed
  qed
qed
text \<open>
  C1, as the code has it. On a chain with a configured price platform, and with an oracle
  that answers a one-address request by at most the entry of that address, every address
  \<open>a\<close> passed to \<^verbatim>\<open>_fetchTokenPrices\<close> is treated as follows. It counts as cached exactly when
  the cache holds an entry under its lower-case form that is less than five minutes old.
  A cached address causes no request; its cached price is returned and its entry is left
  as it was. An address that is not cached (entry absent or at least five minutes old)
  causes a request. When none of the requests of the call rejects and the reply for \<open>a\<close>
  has an ok status, the entry under the lower-case address is overwritten with the price
  of a reply for that address (\<^verbatim>\<open>{usd: 0}\<close> when the body has none) and the clock reading of
  the call, and that price is returned.
\<close>

theorem price_cache_ttl:
  assumes pf: "CHAIN_ID_TO_COINGECKO_ASSET_PLATFORM (currentUserChainId w) = Some pf"
    and wf: "singleReplies w pf ids" and a: "a \<in> set ids"
  shows "(cachedFresh c (clock w) a \<longleftrightarrow>
            (\<exists>e. c (toLowerCase a) = Some e \<and> clock w - timestamp e < 5 * 60 * 1000))
       \<and> (cachedFresh c (clock w) a \<longrightarrow>
            PriceRequest a \<notin> set (fst (fetchTokenPrices w c ids))
            \<and> (\<exists>e. c (toLowerCase a) = Some e
                  \<and> map_of (snd (snd (fetchTokenPrices w c ids))) (toLowerCase a) = Some (price e)
                  \<and> fst (snd (fetchTokenPrices w c ids)) (toLowerCase a) = Some e))
       \<and> (\<not> cachedFresh c (clock w) a \<longrightarrow>
            PriceRequest a \<in> set (fst (fetchTokenPrices w c ids)))
       \<and> (\<not> cachedFresh c (clock w) a
            \<and> (\<forall>b\<in>set ids. \<not> cachedFresh c (clock w) b \<longrightarrow> priceOracle w pf b \<noteq> Rejected)
            \<and> fetchedPrice w pf a \<noteq> None
          \<longrightarrow> (\<exists>p. fst (snd (fetchTokenPrices w c ids)) (toLowerCase a)
                       = Some \<lparr>price = p, timestamp = clock w\<rparr>
                   \<and> map_of (snd (snd (fetchTokenPrices w c ids))) (toLowerCase a) = Some p
                   \<and> (\<exists>b\<in>set ids. toLowerCase b = toLowerCase a \<and> fetchedPrice w pf b = Some p)))"
proof -
  define toFetch where "toFetch = filter (\<lambda>a. \<not> cachedFresh c (clock w) a) ids"
  define fromCache where "fromCache = fst (fold (cacheStep c (clock w)) ids ([], []))"
  define np where "np = fold (\<lambda>b acc. case fetchedPrice w pf b of None \<Rightarrow> acc
                          | Some v \<Rightarrow> AList.update (toLowerCase b) v acc) toFetch []"
  note out0 = fetchTokenPrices_outcome[OF pf wf, of c, folded toFetch_def fromCache_def]
  note out = out0[folded np_def]
  have keys: "fst ` set np \<subseteq> toLowerCase ` set toFetch"
    using newPrices_keys[of w pf toFetch "[]"] by (simp add: np_def)
  have dist: "distinct (map fst np)"
    unfolding np_def by (rule newPrices_distinct) simp
  have low: "\<forall>k\<in>fst ` set np. toLowerCase k = k"
    using keys by (auto simp: toLowerCase_idem)
  have written: "fold (cacheWrite (clock w)) np c k =
      (case map_of np k of Some v \<Rightarrow> Some \<lparr>price = v, timestamp = clock w\<rparr> | None \<Rightarrow> c k)" for k
    by (rule cacheWrite_fold[OF dist low])
  have merged: "map_of (assign fromCache np) k = (map_of fromCache ++ map_of np) k" for k
    by (rule map_of_assign[OF dist])
  have ttl: "cachedFresh c (clock w) a \<longleftrightarrow>
            (\<exists>e. c (toLowerCase a) = Some e \<and> clock w - timestamp e < 5 * 60 * 1000)"
    by (auto simp: cachedFresh_def CACHE_DURATION_MS_def split: option.splits)
  have fresh: "PriceRequest a \<notin> set (fst (fetchTokenPrices w c ids))
            \<and> (\<exists>e. c (toLowerCase a) = Some e
                  \<and> map_of (snd (snd (fetchTokenPrices w c ids))) (toLowerCase a) = Some (price e)
                  \<and> fst (snd (fetchTokenPrices w c ids)) (toLowerCase a) = Some e)"
    if f: "cachedFresh c (clock w) a"
  proof -
    from f obtain e where e: "c (toLowerCase a) = Some e"
      by (auto simp: cachedFresh_def split: option.splits)
    from f a have fc: "map_of fromCache (toLowerCase a) = Some (price e)"
      unfolding fromCache_def by (auto simp: cacheStep_fromCache e)
    have "toLowerCase a \<notin> toLowerCase ` set toFetch"
    proof
      assume "toLowerCase a \<in> toLowerCase ` set toFetch"
      then obtain b where "b \<in> set toFetch" "toLowerCase a = toLowerCase b" by auto
      with f cachedFresh_lower[of a b c "clock w"] show False
        by (simp add: toFetch_def)
    qed
    with keys have "toLowerCase a \<notin> fst ` set np" by auto
    then have n: "map_of np (toLowerCase a) = None" by (simp add: map_of_eq_None_iff)
    have r: "PriceRequest a \<notin> set (fst (fetchTokenPrices w c ids))"
      using f by (auto simp: fetchTokenPrices_events[OF pf])
    from out(1) have "map_of (snd (snd (fetchTokenPrices w c ids))) (toLowerCase a) = Some (price e)
                  \<and> fst (snd (fetchTokenPrices w c ids)) (toLowerCase a) = Some e"
      by (auto simp: fc e written merged n map_add_def)
    with r e show ?thesis by simp
  qed
  have stale: "PriceRequest a \<in> set (fst (fetchTokenPrices w c ids))"
    if "\<not> cachedFresh c (clock w) a"
    using that a by (simp add: fetchTokenPrices_events[OF pf])
  have fetched: "\<exists>p. fst (snd (fetchTokenPrices w c ids)) (toLowerCase a)
                       = Some \<lparr>price = p, timestamp = clock w\<rparr>
                   \<and> map_of (snd (snd (fetchTokenPrices w c ids))) (toLowerCase a) = Some p
                   \<and> (\<exists>b\<in>set ids. toLowerCase b = toLowerCase a \<and> fetchedPrice w pf b = Some p)"
    if h: "\<not> cachedFresh c (clock w) a
            \<and> (\<forall>b\<in>set ids. \<not> cachedFresh c (clock w) b \<longrightarrow> priceOracle w pf b \<noteq> Rejected)
            \<and> fetchedPrice w pf a \<noteq> None"
  proof -
    from h a have at: "a \<in> set toFetch" by (simp add: toFetch_def)
    from h have "\<forall>b\<in>set toFetch. priceOracle w pf b \<noteq> Rejected" by (simp add: toFetch_def)
    from out(2)[OF this]
    have s: "snd (fetchTokenPrices w c ids) = (fold (cacheWrite (clock w)) np c, assign fromCache np)" .
    from h obtain v where "fetchedPrice w pf a = Some v" by auto
    from newPrices_present[OF at this, of "[]"] obtain p where p: "map_of np (toLowerCase a) = Some p"
      by (auto simp: np_def)
    from newPrices_origin[of w pf toFetch "[]" "toLowerCase a" p] p
    obtain b where "b \<in> set toFetch" "toLowerCase b = toLowerCase a" "fetchedPrice w pf b = Some p"
      by (auto simp: np_def)
    then have "\<exists>b\<in>set ids. toLowerCase b = toLowerCase a \<and> fetchedPrice w pf b = Some p"
      by (auto simp: toFetch_def)
    with s p show ?thesis
      by (auto simp: written merged map_add_def)
  qed
  from ttl fresh stale fetched show ?thesis by blast
qed

lemmas cache_unfold =
  fetchTokenPrices_unfold cachedFresh_def cacheAB_def offPlatformWorld_def rejectingWorld_def
  singleReplies_def fetchedPrice_def

lemma fetchTokenPrices_walletWorld_cacheAB:
  "fst (fetchTokenPrices walletWorld cacheAB [''0xaa'', ''0xbb''])
     = [FetchTokenPrices [''0xaa'', ''0xbb''], PriceRequest ''0xbb'']"
  "snd (snd (fetchTokenPrices walletWorld cacheAB [''0xaa'', ''0xbb'']))
     = [(''0xaa'', \<lparr>usd = 2\<rparr>), (''0xbb'', \<lparr>usd = 1000\<rparr>)]"
  "fst (snd (fetchTokenPrices walletWorld cacheAB [''0xaa'', ''0xbb''])) ''0xbb''
     = Some \<lparr>price = \<lparr>usd = 1000\<rparr>, timestamp = 1700000000999\<rparr>"
  "fst (snd (fetchTokenPrices walletWorld cacheAB [''0xaa'', ''0xbb''])) ''0xaa''
     = Some \<lparr>price = \<lparr>usd = 2\<rparr>, timestamp = 1700000000000\<rparr>"
  by (simp_all add: cache_unfold world_unfold)

theorem price_cache_ttl_witness:
  "CHAIN_ID_TO_COINGECKO_ASSET_PLATFORM (currentUserChainId walletWorld) = Some ''ethereum''
   \<and> singleReplies walletWorld ''ethereum'' [''0xaa'', ''0xbb'']
   \<and> cachedFresh cacheAB (clock walletWorld) ''0xaa''
   \<and> \<not> cachedFresh cacheAB (clock walletWorld) ''0xbb''
   \<and> priceOracle walletWorld ''ethereum'' ''0xbb'' \<noteq> Rejected
   \<and> fetchedPrice walletWorld ''ethereum'' ''0xbb'' = Some \<lparr>usd = 1000\<rparr>
   \<and> PriceRequest ''0xaa'' \<notin> set (fst (fetchTokenPrices walletWorld cacheAB [''0xaa'', ''0xbb'']))
   \<and> PriceRequest ''0xbb'' \<in> set (fst (fetchTokenPrices walletWorld cacheAB [''0xaa'', ''0xbb'']))
   \<and> map_of (snd (snd (fetchTokenPrices walletWorld cacheAB [''0xaa'', ''0xbb'']))) ''0xaa''
       = Some \<lparr>usd = 2\<rparr>
   \<and> fst (snd (fetchTokenPrices walletWorld cacheAB [''0xaa'', ''0xbb''])) ''0xbb''
       = Some \<lparr>price = \<lparr>usd = 1000\<rparr>, timestamp = 1700000000999\<rparr>"
proof -
  have pf: "CHAIN_ID_TO_COINGECKO_ASSET_PLATFORM (currentUserChainId walletWorld) = Some ''ethereum''"
    by (simp add: cache_unfold world_unfold)
  have wf: "singleReplies walletWorld ''ethereum'' [''0xaa'', ''0xbb'']"
    by (simp add: cache_unfold world_unfold)
  have f: "cachedFresh cacheAB (clock walletWorld) ''0xaa''"
    "\<not> cachedFresh cacheAB (clock walletWorld) ''0xbb''"
    by (simp_all add: cache_unfold world_unfold)
  have o: "priceOracle walletWorld ''ethereum'' ''0xbb'' \<noteq> Rejected"
    "fetchedPrice walletWorld ''ethereum'' ''0xbb'' = Some \<lparr>usd = 1000\<rparr>"
    by (simp_all add: cache_unfold world_unfold)
  from price_cache_ttl[OF pf wf, of "''0xaa''" cacheAB] price_cache_ttl[OF pf wf, of "''0xbb''" cacheAB]
    pf wf f o fetchTokenPrices_walletWorld_cacheAB
  show ?thesis by simp
qed

text \<open>C1 as stated fails twice. On a chain without a price platform the function returns
  the empty object although the cache holds a price of token A that is 999 ms old. And
  when the request for another address rejects, the stale entry of token B is not
  overwritten although the request for B itself was answered with a price.\<close>

theorem cached_price_not_served_counterexample:
  "cachedFresh cacheAB (clock offPlatformWorld) ''0xaa''
   \<and> snd (snd (fetchTokenPrices offPlatformWorld cacheAB [''0xaa''])) = []
   \<and> \<not> cachedFresh cacheAB (clock rejectingWorld) ''0xbb''
   \<and> priceOracle rejectingWorld ''ethereum'' ''0xbb'' = Ok [(''0xbb'', \<lparr>usd = 1000\<rparr>)]
   \<and> PriceRequest ''0xbb'' \<in> set (fst (fetchTokenPrices rejectingWorld cacheAB [''0xbb'', ''0xdd'']))
   \<and> fst (snd (fetchTokenPrices rejectingWorld cacheAB [''0xbb'', ''0xdd''])) ''0xbb''
       = Some \<lparr>price = \<lparr>usd = 900\<rparr>, timestamp = 1699999000000\<rparr>"
  by (simp add: cache_unfold world_unfold)

subsection \<open>The chunked price fetch\<close>

lemma keys_assign: "fst ` set (assign acc ps) = fst ` set acc \<union> fst ` set ps"
proof (induction ps arbitrary: acc)
  case Nil
  then show ?case by (simp add: assign_def)
next
  case (Cons kv ps)
  have "assign acc (kv # ps) = assign (AList.update (fst kv) (snd kv) acc) ps"
    by (simp add: assign_def case_prod_beta)
  then show ?case
    by (auto simp: Cons.IH AList.dom_update)
qed

lemma fetchTokenPrices_7702_entry:
  "filter isFetchTokenPrices (fst (fetchTokenPrices_7702 w ids)) = [FetchTokenPrices ids]"
  by (auto simp: fetchTokenPrices_7702_def Let_def split: option.splits sum.splits)

lemma chunkStep_keys:
  "fst ` set (snd acc) \<subseteq> fst ` set (snd (chunkStep w i acc))"
  by (auto simp: chunkStep_def keys_assign AList.dom_update split: prod.splits option.splits)

lemma chunkStep_adds:
  assumes "\<forall>ps. snd (fetchTokenPrices_7702 w [i]) = Some ps \<longrightarrow> priceKey i \<in> fst ` set ps"
  shows "priceKey i \<in> fst ` set (snd (chunkStep w i acc))"
  using assms
  by (auto simp: chunkStep_def keys_assign AList.dom_update priceKey_def
      split: prod.splits option.splits)

lemma chunks_keys_mono:
  "fst ` set (snd acc) \<subseteq> fst ` set (snd (fold (chunkStep w) ids acc))"
proof (induction ids arbitrary: acc)
  case Nil
  then show ?case by simp
next
  case (Cons i ids)
  from chunkStep_keys[of acc w i] Cons.IH[of "chunkStep w i acc"] show ?case by auto
qed

text \<open>The v3.1 fetch: every requested identifier has an entry in the result, when a
  one-identifier reply that carries data carries the entry of that identifier; and every
  identifier is fetched, whatever happened to the ones before it. The v3.0 fetch also
  goes through every identifier.\<close>

lemma chunked_fetch_covers_every_id:
  assumes "\<forall>i\<in>set ids. \<forall>ps. snd (fetchTokenPrices_7702 w [i]) = Some ps
             \<longrightarrow> priceKey i \<in> fst ` set ps"
  shows "\<forall>i\<in>set ids. priceKey i \<in> fst ` set (snd (fetchTokenPricesInChunks w ids))"
proof -
  have "\<forall>i\<in>set ids. priceKey i \<in> fst ` set (snd (fold (chunkStep w) ids acc))" for acc
    using assms
  proof (induction ids arbitrary: acc)
    case Nil
    then show ?case by simp
  next
    case (Cons j ids)
    from Cons.prems have j: "priceKey j \<in> fst ` set (snd (chunkStep w j acc))"
      by (intro chunkStep_adds) simp
    with chunks_keys_mono[of "chunkStep w j acc" w ids]
    have "priceKey j \<in> fst ` set (snd (fold (chunkStep w) (j # ids) acc))" by auto
    moreover from Cons.IH[of "chunkStep w j acc"] Cons.prems
    have "\<forall>i\<in>set ids. priceKey i \<in> fst ` set (snd (fold (chunkStep w) (j # ids) acc))" by simp
    ultimately show ?case by simp
  qed
  then show ?thesis by (simp add: fetchTokenPricesInChunks_def)
qed

lemma chunked_fetch_never_aborts:
  "filter isFetchTokenPrices (fst (fetchTokenPricesInChunks w ids))
     = map (\<lambda>i. FetchTokenPrices [i]) ids"
  "filter isFetchTokenPrices (fst (fetchTokenPricesInChunks_v30 w ids))
     = map (\<lambda>i. FetchTokenPrices [i]) ids"
proof -
  have "filter isFetchTokenPrices (fst (fold (chunkStep w) ids acc))
          = filter isFetchTokenPrices (fst acc) @ map (\<lambda>i. FetchTokenPrices [i]) ids" for acc
  proof (induction ids arbitrary: acc)
    case Nil
    then show ?case by simp
  next
    case (Cons i ids)
    have "filter isFetchTokenPrices (fst (chunkStep w i acc))
            = filter isFetchTokenPrices (fst acc) @ [FetchTokenPrices [i]]"
      using fetchTokenPrices_7702_entry[of w "[i]"]
      by (auto simp: chunkStep_def split: prod.splits option.splits)
    then show ?case by (simp add: Cons.IH)
  qed
  then show "filter isFetchTokenPrices (fst (fetchTokenPricesInChunks w ids))
     = map (\<lambda>i. FetchTokenPrices [i]) ids"
    by (simp add: fetchTokenPricesInChunks_def)
  have "filter isFetchTokenPrices (fst (fold (chunkStep_v30 w) ids acc))
          = filter isFetchTokenPrices (fst acc) @ map (\<lambda>i. FetchTokenPrices [i]) ids" for acc
  proof (induction ids arbitrary: acc)
    case Nil
    then show ?case by simp
  next
    case (Cons i ids)
    have "filter isFetchTokenPrices (fst (chunkStep_v30 w i acc))
            = filter isFetchTokenPrices (fst acc) @ [FetchTokenPrices [i]]"
      using fetchTokenPrices_7702_entry[of w "[i]"]
      by (auto simp: chunkStep_v30_def split: prod.splits option.splits)
    then show ?case by (simp add: Cons.IH)
  qed
  then show "filter isFetchTokenPrices (fst (fetchTokenPricesInChunks_v30 w ids))
     = map (\<lambda>i. FetchTokenPrices [i]) ids"
    by (simp add: fetchTokenPricesInChunks_v30_def)
qed

lemmas chunks_unfold =
  fetchTokenPricesInChunks_v30_def chunkStep_v30_def fetchTokenPricesInChunks_def chunkStep_def
  fetchTokenPrices_7702_def CHAIN_ID_TO_COINGECKO_ASSET_PLATFORM_v1_def startsWith0x_def
  respond_def assign_def toLowerCase_def chunkWorld_def baseWorld_def Let_def

text \<open>
  C3 on the v3.0 copy of \<^verbatim>\<open>_fetchTokenPricesInChunks\<close>: the request for \<^verbatim>\<open>0xdd\<close> is answered
  with an error status; the identifiers after it are still fetched, but the result has
  no entry for \<^verbatim>\<open>0xdd\<close>. The v3.1 copy records \<^verbatim>\<open>{usd: 0}\<close> for it.
\<close>

theorem chunked_fetch_v30_leaves_gap:
  "snd (fetchTokenPricesInChunks_v30 chunkWorld [''0xaa'', ''0xdd'', ''ethereum''])
     = [(''0xaa'', \<lparr>usd = 2\<rparr>), (''ethereum'', \<lparr>usd = 2000\<rparr>)]
   \<and> map_of (snd (fetchTokenPricesInChunks_v30 chunkWorld [''0xaa'', ''0xdd'', ''ethereum'']))
       ''0xdd'' = None
   \<and> snd (fetchTokenPricesInChunks chunkWorld [''0xaa'', ''0xdd'', ''ethereum''])
     = [(''0xaa'', \<lparr>usd = 2\<rparr>), (''0xdd'', \<lparr>usd = 0\<rparr>), (''ethereum'', \<lparr>usd = 2000\<rparr>)]"
  by (simp add: chunks_unfold)

subsection \<open>The single highest token is the head of the ranking\<close>

lemma highestStep_loopValue:
  "- 1 \<le> m \<Longrightarrow>
   highestStep ps t (ho, m) = (if loopValue ps t > m then (Some t, loopValue ps t) else (ho, m))"
  by (auto simp: highestStep_def loopValue_def Let_def split: option.splits)

lemma highest_fold_shape:
  assumes "- 1 \<le> m" and "fold (highestStep ps) ts (ho, m) = (ho', v)"
  shows "(ho' = ho \<and> v = m \<and> (\<forall>t\<in>set ts. loopValue ps t \<le> m))
       \<or> (\<exists>xs h ys. ho' = Some h \<and> ts = xs @ h # ys \<and> loopValue ps h = v \<and> m < v
             \<and> (\<forall>t\<in>set xs. loopValue ps t < v) \<and> (\<forall>t\<in>set ys. loopValue ps t \<le> v))"
  using assms
proof (induction ts arbitrary: ho m)
  case Nil
  then show ?case by simp
next
  case (Cons t ts)
  show ?case
  proof (cases "loopValue ps t > m")
    case True
    with Cons.prems have f: "fold (highestStep ps) ts (Some t, loopValue ps t) = (ho', v)"
      and m': "- 1 \<le> loopValue ps t"
      by (simp_all add: highestStep_loopValue)
    from Cons.IH[OF m' f] show ?thesis
    proof
      assume "ho' = Some t \<and> v = loopValue ps t \<and> (\<forall>x\<in>set ts. loopValue ps x \<le> loopValue ps t)"
      with True have "ho' = Some t \<and> t # ts = [] @ t # ts \<and> loopValue ps t = v \<and> m < v
             \<and> (\<forall>x\<in>set []. loopValue ps x < v) \<and> (\<forall>x\<in>set ts. loopValue ps x \<le> v)"
        by simp
      then show ?thesis by blast
    next
      assume "\<exists>xs h ys. ho' = Some h \<and> ts = xs @ h # ys \<and> loopValue ps h = v \<and> loopValue ps t < v
             \<and> (\<forall>x\<in>set xs. loopValue ps x < v) \<and> (\<forall>x\<in>set ys. loopValue ps x \<le> v)"
      then obtain xs h ys where h: "ho' = Some h" "ts = xs @ h # ys" "loopValue ps h = v"
        "loopValue ps t < v" "\<forall>x\<in>set xs. loopValue ps x < v" "\<forall>x\<in>set ys. loopValue ps x \<le> v"
        by blast
      with True have "ho' = Some h \<and> t # ts = (t # xs) @ h # ys \<and> loopValue ps h = v \<and> m < v
             \<and> (\<forall>x\<in>set (t # xs). loopValue ps x < v) \<and> (\<forall>x\<in>set ys. loopValue ps x \<le> v)"
        by simp
      then show ?thesis by blast
    qed
  next
    case False
    with Cons.prems have f: "fold (highestStep ps) ts (ho, m) = (ho', v)"
      by (simp add: highestStep_loopValue)
    from Cons.IH[OF Cons.prems(1) f] show ?thesis
    proof
      assume "ho' = ho \<and> v = m \<and> (\<forall>x\<in>set ts. loopValue ps x \<le> m)"
      with False show ?thesis by auto
    next
      assume "\<exists>xs h ys. ho' = Some h \<and> ts = xs @ h # ys \<and> loopValue ps h = v \<and> m < v
             \<and> (\<forall>x\<in>set xs. loopValue ps x < v) \<and> (\<forall>x\<in>set ys. loopValue ps x \<le> v)"
      then obtain xs h ys where h: "ho' = Some h" "ts = xs @ h # ys" "loopValue ps h = v"
        "m < v" "\<forall>x\<in>set xs. loopValue ps x < v" "\<forall>x\<in>set ys. loopValue ps x \<le> v"
        by blast
      with False have "ho' = Some h \<and> t # ts = (t # xs) @ h # ys \<and> loopValue ps h = v \<and> m < v
             \<and> (\<forall>x\<in>set (t # xs). loopValue ps x < v) \<and> (\<forall>x\<in>set ys. loopValue ps x \<le> v)"
        by auto
      then show ?thesis by blast
    qed
  qed
qed

lemma rankTokens_head:
  assumes "\<forall>t\<in>set xs. usdValue (valuate po t) < usdValue (valuate po h)"
    and "\<forall>t\<in>set ys. usdValue (valuate po t) \<le> usdValue (valuate po h)"
  shows "hd (rankTokens po (xs @ h # ys)) = valuate po h"
proof -
  define f where "f = (\<lambda>r::selection. - usdValue r)"
  define inp where "inp = map (valuate po) (xs @ h # ys)"
  define L where "L = sort_key f inp"
  define v where "v = usdValue (valuate po h)"
  have setL: "set L = set inp" by (simp add: L_def)
  have mem: "valuate po h \<in> set L" by (simp add: setL inp_def)
  then obtain r rs where L: "L = r # rs" by (cases L) auto
  have "sorted (map f L)" unfolding L_def by (rule sorted_sort_key)
  then have low: "\<forall>x\<in>set L. f r \<le> f x" by (auto simp: L)
  have "\<forall>x\<in>set inp. usdValue x \<le> v" using assms by (auto simp: inp_def v_def)
  then have ub: "\<forall>x\<in>set L. usdValue x \<le> v" by (simp add: setL)
  from low mem have "v \<le> usdValue r" by (auto simp: f_def v_def)
  with ub L have rv: "f r = - v" by (auto simp: f_def)
  have "filter (\<lambda>x. f x = - v) L = filter (\<lambda>x. f x = - v) inp"
    unfolding L_def by (rule sort_key_stable)
  also have "\<dots> = valuate po h # filter (\<lambda>x. f x = - v) (map (valuate po) ys)"
    using assms(1) by (auto simp: inp_def f_def v_def filter_empty_conv)
  finally have "hd (filter (\<lambda>x. f x = - v) L) = valuate po h" by simp
  with rv have "r = valuate po h" by (simp add: L)
  then have "hd L = valuate po h" by (simp add: L)
  moreover have "rankTokens po (xs @ h # ys) = L"
    unfolding rankTokens_def L_def inp_def f_def ..
  ultimately show ?thesis by (simp only:)
qed

text \<open>With non-negative prices and some token of positive fiat value, the loop of
  \<^verbatim>\<open>_findHighestValueToken\<close> ends on the token and the value that stand first in the
  ranking: the highest value, the first-discovered token among equals.\<close>

lemma highest_is_head_of_ranking:
  assumes nonneg: "\<forall>t\<in>set toks. \<forall>p. map_of ps (toLowerCase (tokenAddress t)) = Some p \<longrightarrow> 0 \<le> usd p"
    and pos: "\<exists>t\<in>set toks. 0 < usdValue (valuate (Some ps) t)"
  shows "fold (highestStep ps) toks (None, - 1) =
           (Some (tokenData (hd (rankTokens (Some ps) toks))),
            usdValue (hd (rankTokens (Some ps) toks)))"
proof -
  let ?key = "\<lambda>t. usdValue (valuate (Some ps) t)"
  have key0: "0 \<le> ?key t" if "t \<in> set toks" for t
    using nonneg that by (auto simp: valuate_def usdValueOf_def split: option.splits)
  have lk: "loopValue ps t = ?key t \<or> (loopValue ps t = - 1 \<and> ?key t = 0)" for t
    by (auto simp: loopValue_def valuate_def split: option.splits)
  obtain ho' v where f: "fold (highestStep ps) toks (None, - 1) = (ho', v)"
    by (cases "fold (highestStep ps) toks (None, - 1)") auto
  from pos obtain t0 where t0: "t0 \<in> set toks" "0 < ?key t0" by auto
  with lk[of t0] have l0: "loopValue ps t0 = ?key t0" by auto
  from highest_fold_shape[OF _ f] have
    "(ho' = None \<and> v = - 1 \<and> (\<forall>t\<in>set toks. loopValue ps t \<le> - 1))
       \<or> (\<exists>xs h ys. ho' = Some h \<and> toks = xs @ h # ys \<and> loopValue ps h = v \<and> - 1 < v
             \<and> (\<forall>t\<in>set xs. loopValue ps t < v) \<and> (\<forall>t\<in>set ys. loopValue ps t \<le> v))"
    by simp
  with t0 l0 obtain xs h ys where h: "ho' = Some h" "toks = xs @ h # ys" "loopValue ps h = v"
    "\<forall>t\<in>set xs. loopValue ps t < v" "\<forall>t\<in>set ys. loopValue ps t \<le> v"
    by fastforce
  have "loopValue ps t0 \<le> v"
    using t0(1) h(2,3,4,5) by auto
  with t0(2) l0 have vpos: "0 < v" by simp
  with h(3) lk[of h] have kh: "?key h = v" by auto
  have a1: "\<forall>t\<in>set xs. ?key t < ?key h"
  proof
    fix t assume "t \<in> set xs"
    with h(4) have "loopValue ps t < v" by simp
    with lk[of t] vpos kh show "?key t < ?key h" by auto
  qed
  have a2: "\<forall>t\<in>set ys. ?key t \<le> ?key h"
  proof
    fix t assume "t \<in> set ys"
    with h(5) have "loopValue ps t \<le> v" by simp
    with lk[of t] vpos kh show "?key t \<le> ?key h" by auto
  qed
  from rankTokens_head[OF a1 a2] h(2) have "hd (rankTokens (Some ps) toks) = valuate (Some ps) h"
    by simp
  with f h(1) kh show ?thesis by simp
qed

end
